theory Spec2Isabelle
  imports Complex_Main
begin

section \<open>Python text primitives used by the monitor\<close>

text \<open>
  Text is a list of characters. Only the ASCII letters have a case and only the ASCII
  white-space characters separate tokens; any other character is left alone by
  \<open>lower\<close> and \<open>upper\<close> and is an ordinary token character.
\<close>

definition py_lower_char :: "char \<Rightarrow> char" where
  "py_lower_char c =
     (case map_of (zip ''ABCDEFGHIJKLMNOPQRSTUVWXYZ'' ''abcdefghijklmnopqrstuvwxyz'') c of
        Some d \<Rightarrow> d | None \<Rightarrow> c)"

definition py_upper_char :: "char \<Rightarrow> char" where
  "py_upper_char c =
     (case map_of (zip ''abcdefghijklmnopqrstuvwxyz'' ''ABCDEFGHIJKLMNOPQRSTUVWXYZ'') c of
        Some d \<Rightarrow> d | None \<Rightarrow> c)"

definition py_lower :: "string \<Rightarrow> string" where
  "py_lower s = map py_lower_char s"

definition py_upper :: "string \<Rightarrow> string" where
  "py_upper s = map py_upper_char s"

text \<open>\<open>str.isspace\<close> on one ASCII character: blank, TAB, LF, VT, FF, CR, FS, GS, RS, US.\<close>

definition py_isspace :: "char \<Rightarrow> bool" where
  "py_isspace c = (c \<in> set [CHR '' '', CHR 0x09, CHR 0x0A, CHR 0x0B, CHR 0x0C, CHR 0x0D,
                             CHR 0x1C, CHR 0x1D, CHR 0x1E, CHR 0x1F])"

definition is_digit :: "char \<Rightarrow> bool" where
  "is_digit c = (c \<in> set ''0123456789'')"

text \<open>\<open>s.isdigit()\<close>: non-empty and made of digits only.\<close>

definition py_isdigit :: "string \<Rightarrow> bool" where
  "py_isdigit s = (s \<noteq> [] \<and> list_all is_digit s)"

text \<open>\<open>s.startswith(p)\<close> and the substring test \<open>p in s\<close>.\<close>

fun py_startswith :: "string \<Rightarrow> string \<Rightarrow> bool" where
  "py_startswith s [] = True"
| "py_startswith [] (p # ps) = False"
| "py_startswith (c # cs) (p # ps) = (c = p \<and> py_startswith cs ps)"

fun py_in :: "string \<Rightarrow> string \<Rightarrow> bool" where
  "py_in p [] = (p = [])"
| "py_in p (c # cs) = (py_startswith (c # cs) p \<or> py_in p cs)"

text \<open>\<open>s.split(sep)\<close> for a one-character separator: never the empty list.\<close>

fun py_split_on :: "char \<Rightarrow> string \<Rightarrow> string list" where
  "py_split_on sep [] = [[]]"
| "py_split_on sep (c # cs) =
     (if c = sep then [] # py_split_on sep cs
      else (case py_split_on sep cs of
              [] \<Rightarrow> [[c]]
            | w # ws \<Rightarrow> (c # w) # ws))"

text \<open>\<open>s.split()\<close>: the maximal runs of non-space characters, no empty token.\<close>

fun py_split_acc :: "string \<Rightarrow> string \<Rightarrow> string list" where
  "py_split_acc acc [] = (if acc = [] then [] else [rev acc])"
| "py_split_acc acc (c # cs) =
     (if py_isspace c then (if acc = [] then py_split_acc [] cs else rev acc # py_split_acc [] cs)
      else py_split_acc (c # acc) cs)"

definition py_split :: "string \<Rightarrow> string list" where
  "py_split s = py_split_acc [] s"

text \<open>\<open>s.strip()\<close> and \<open>s.replace(c, '')\<close> for one character \<open>c\<close>.\<close>

definition py_strip :: "string \<Rightarrow> string" where
  "py_strip s = rev (dropWhile py_isspace (rev (dropWhile py_isspace s)))"

definition py_remove :: "char \<Rightarrow> string \<Rightarrow> string" where
  "py_remove c s = filter (\<lambda>d. d \<noteq> c) s"

subsection \<open>The builtin \<open>float(str)\<close>\<close>

text \<open>
  A Python float is modelled by its exact decimal value, or one of the three special
  values; rounding to a binary double is not modelled. \<open>float\<close> raises
  \<open>ValueError\<close> on text outside its grammar, which is the result \<open>None\<close> here.
  The grammar is the one of the language reference:
  \<^verbatim>\<open>[sign] (number [exponent] | "inf" | "infinity" | "nan")\<close>, where
  \<^verbatim>\<open>number ::= [digitpart] "." digitpart | digitpart ["."]\<close> and
  \<^verbatim>\<open>digitpart ::= digit (["_"] digit)*\<close>, after stripping white space.
\<close>

datatype pyfloat = Num rat | PosInf | NegInf | NaN

datatype pyerror = ValueError | IndexError

text \<open>Truth value of a float in a condition: every value but zero.\<close>

fun truthy :: "pyfloat \<Rightarrow> bool" where
  "truthy (Num q) = (q \<noteq> 0)"
| "truthy _ = True"

text \<open>The comparison \<open>x < y\<close> of a float with a finite number.\<close>

fun float_less :: "pyfloat \<Rightarrow> rat \<Rightarrow> bool" where
  "float_less (Num q) r = (q < r)"
| "float_less NegInf r = True"
| "float_less PosInf r = False"
| "float_less NaN r = False"

definition digit_val :: "char \<Rightarrow> nat" where
  "digit_val c = (case map_of (zip ''0123456789'' [0, 1, 2, 3, 4, 5, 6, 7, 8, 9]) c of
                    Some n \<Rightarrow> n | None \<Rightarrow> 0)"

definition digits_val :: "string \<Rightarrow> nat" where
  "digits_val ds = foldl (\<lambda>a c. 10 * a + digit_val c) 0 ds"

text \<open>
  \<open>digitpart_tl s\<close> reads the rest of a digit part: digits, each optionally preceded by
  one underscore. It returns the digits read and the text left.
\<close>

fun digitpart_tl :: "string \<Rightarrow> string \<times> string" where
  "digitpart_tl [] = ([], [])"
| "digitpart_tl [c] = (if is_digit c then ([c], []) else ([], [c]))"
| "digitpart_tl (c # d # cs) =
     (if is_digit c then (case digitpart_tl (d # cs) of (ds, r) \<Rightarrow> (c # ds, r))
      else if c = CHR ''_'' \<and> is_digit d then digitpart_tl (d # cs)
      else ([], c # d # cs))"

text \<open>A digit part at the head of the text, if there is one.\<close>

definition digitpart :: "string \<Rightarrow> (string \<times> string) option" where
  "digitpart s = (case s of
                    [] \<Rightarrow> None
                  | c # cs \<Rightarrow> if is_digit c then Some (digitpart_tl s) else None)"

text \<open>The exponent \<open>e[sign]digitpart\<close> up to the end of the text; no exponent is 0.\<close>

definition exponent :: "string \<Rightarrow> int option" where
  "exponent s =
     (case s of
        [] \<Rightarrow> Some 0
      | c # cs \<Rightarrow>
          if c = CHR ''e'' \<or> c = CHR ''E'' then
            (let (neg, body) = (case cs of
                                  [] \<Rightarrow> (False, cs)
                                | x # xs \<Rightarrow> if x = CHR ''-'' then (True, xs)
                                            else if x = CHR ''+'' then (False, xs)
                                            else (False, cs))
             in case digitpart body of
                  Some (ds, []) \<Rightarrow> Some (if neg then - int (digits_val ds) else int (digits_val ds))
                | _ \<Rightarrow> None)
          else None)"

definition scale :: "string \<Rightarrow> string \<Rightarrow> int \<Rightarrow> rat" where
  "scale ip fp e =
     (let m = of_nat (digits_val (ip @ fp)) :: rat;
          k = e - int (length fp)
      in if 0 \<le> k then m * 10 ^ nat k else m / 10 ^ nat (- k))"

text \<open>An unsigned number with its optional exponent, up to the end of the text.\<close>

definition floatnumber :: "string \<Rightarrow> rat option" where
  "floatnumber s =
     (case digitpart s of
        Some (ip, r) \<Rightarrow>
          (case r of
             c # r' \<Rightarrow>
               if c = CHR ''.'' then
                 (case digitpart r' of
                    Some (fp, r'') \<Rightarrow> map_option (scale ip fp) (exponent r'')
                  | None \<Rightarrow> map_option (scale ip []) (exponent r'))
               else map_option (scale ip []) (exponent r)
           | [] \<Rightarrow> Some (scale ip [] 0))
      | None \<Rightarrow>
          (case s of
             c # r' \<Rightarrow>
               if c = CHR ''.'' then
                 (case digitpart r' of
                    Some (fp, r'') \<Rightarrow> map_option (scale [] fp) (exponent r'')
                  | None \<Rightarrow> None)
               else None
           | [] \<Rightarrow> None))"

definition absfloat :: "string \<Rightarrow> pyfloat option" where
  "absfloat s =
     (if py_lower s = ''inf'' \<or> py_lower s = ''infinity'' then Some PosInf
      else if py_lower s = ''nan'' then Some NaN
      else map_option Num (floatnumber s))"

fun negate :: "pyfloat \<Rightarrow> pyfloat" where
  "negate (Num q) = Num (- q)"
| "negate PosInf = NegInf"
| "negate NegInf = PosInf"
| "negate NaN = NaN"

definition py_float :: "string \<Rightarrow> pyfloat option" where
  "py_float s =
     (case py_strip s of
        [] \<Rightarrow> None
      | c # cs \<Rightarrow> if c = CHR ''-'' then map_option negate (absfloat cs)
                  else if c = CHR ''+'' then absfloat cs
                  else absfloat (c # cs))"

section \<open>Telemetry extractors\<close>

text \<open>
  Each extractor splits the captured output at line feeds and scans the lines in order.
  An extractor that calls \<open>float\<close> outside a \<open>try\<close> block propagates its
  \<open>ValueError\<close>; the result type \<open>pyerror + 'a\<close> keeps that branch.
\<close>

definition lineas_de :: "string \<Rightarrow> string list" where
  "lineas_de output = py_split_on (CHR 0x0A) output"

text \<open>
  The inner loop of \<open>extraer_temperatura\<close>, \<open>extraer_rx_power\<close> and
  \<open>extraer_tx_power\<close>: the first token that is all digits once its dots and minus signs
  are removed is handed to \<open>float\<close>. \<open>None\<close>: no such token on the line.
\<close>

fun primer_numero :: "string list \<Rightarrow> (pyerror + pyfloat) option" where
  "primer_numero [] = None"
| "primer_numero (parte # partes) =
     (if py_isdigit (py_remove (CHR ''-'') (py_remove (CHR ''.'') parte)) then
        (case py_float parte of
           None \<Rightarrow> Some (Inl ValueError)
         | Some v \<Rightarrow> Some (Inr v))
      else primer_numero partes)"

fun temperatura_lineas :: "string list \<Rightarrow> pyerror + pyfloat option" where
  "temperatura_lineas [] = Inr None"
| "temperatura_lineas (linea # lineas) =
     (if py_in ''temperature'' (py_lower linea) then
        (case primer_numero (py_split linea) of
           Some (Inl e) \<Rightarrow> Inl e
         | Some (Inr v) \<Rightarrow> Inr (Some v)
         | None \<Rightarrow> temperatura_lineas lineas)
      else temperatura_lineas lineas)"

definition extraer_temperatura :: "string \<Rightarrow> pyerror + pyfloat option" where
  "extraer_temperatura output = temperatura_lineas (lineas_de output)"

text \<open>The sentinel \<open>-999\<close> of the optical-power extractors.\<close>

definition sin_lectura :: pyfloat where
  "sin_lectura = Num (- 999)"

text \<open>
  \<open>extraer_rx_power\<close> and \<open>extraer_tx_power\<close> are the same loop with the keyword
  \<open>rx\<close> or \<open>tx\<close>.
\<close>

fun potencia_lineas :: "string \<Rightarrow> string list \<Rightarrow> pyerror + pyfloat" where
  "potencia_lineas kw [] = Inr sin_lectura"
| "potencia_lineas kw (linea # lineas) =
     (if py_in kw (py_lower linea) \<and> py_in ''power'' (py_lower linea) then
        (case primer_numero (py_split linea) of
           Some (Inl e) \<Rightarrow> Inl e
         | Some (Inr v) \<Rightarrow> Inr v
         | None \<Rightarrow> potencia_lineas kw lineas)
      else potencia_lineas kw lineas)"

definition extraer_rx_power :: "string \<Rightarrow> pyerror + pyfloat" where
  "extraer_rx_power output = potencia_lineas ''rx'' (lineas_de output)"

definition extraer_tx_power :: "string \<Rightarrow> pyerror + pyfloat" where
  "extraer_tx_power output = potencia_lineas ''tx'' (lineas_de output)"

text \<open>
  \<open>extraer_porcentaje\<close>: the conversion sits in \<open>try: ... except: continue\<close>, so a
  token that \<open>float\<close> rejects is skipped.
\<close>

fun primer_porcentaje :: "string list \<Rightarrow> pyfloat option" where
  "primer_porcentaje [] = None"
| "primer_porcentaje (parte # partes) =
     (if py_in ''%'' parte then
        (case py_float (py_remove (CHR ''%'') parte) of
           Some v \<Rightarrow> Some v
         | None \<Rightarrow> primer_porcentaje partes)
      else primer_porcentaje partes)"

fun porcentaje_lineas :: "string list \<Rightarrow> pyfloat option" where
  "porcentaje_lineas [] = None"
| "porcentaje_lineas (linea # lineas) =
     (if py_in ''%'' linea then
        (case primer_porcentaje (py_split linea) of
           Some v \<Rightarrow> Some v
         | None \<Rightarrow> porcentaje_lineas lineas)
      else porcentaje_lineas lineas)"

definition extraer_porcentaje :: "string \<Rightarrow> pyfloat option" where
  "extraer_porcentaje output = porcentaje_lineas (lineas_de output)"

fun serial_lineas :: "string list \<Rightarrow> string option" where
  "serial_lineas [] = None"
| "serial_lineas (linea # lineas) =
     (if py_in ''serial'' (py_lower linea) \<or> py_in ''sn'' (py_lower linea) then
        (let partes = py_split linea
         in if length partes > 1 then Some (py_strip (last partes))
            else serial_lineas lineas)
      else serial_lineas lineas)"

definition extraer_serial :: "string \<Rightarrow> string option" where
  "extraer_serial output = serial_lineas (lineas_de output)"

text \<open>
  \<open>extraer_nombre_sistema\<close> falls back to \<open>OLT-\<close> followed by the clock
  (\<open>%H%M\<close>); the clock reading is the parameter \<open>hhmm\<close>.
\<close>

fun nombre_lineas :: "string \<Rightarrow> string list \<Rightarrow> string" where
  "nombre_lineas hhmm [] = ''OLT-'' @ hhmm"
| "nombre_lineas hhmm (linea # lineas) =
     (if py_in ''hostname'' (py_lower linea) \<or> py_in ''nombre'' (py_lower linea) then
        (let partes = py_split linea
         in if length partes > 1 then last partes
            else nombre_lineas hhmm lineas)
      else nombre_lineas hhmm lineas)"

definition extraer_nombre_sistema :: "string \<Rightarrow> string \<Rightarrow> string" where
  "extraer_nombre_sistema hhmm system_info = nombre_lineas hhmm (lineas_de system_info)"

fun modelo_lineas :: "string list \<Rightarrow> string" where
  "modelo_lineas [] = ''VSOL-OLT''"
| "modelo_lineas (linea # lineas) =
     (if py_in ''model'' (py_lower linea) \<or> py_in ''hardware'' (py_lower linea) then
        take 50 (py_strip linea)
      else modelo_lineas lineas)"

definition extraer_modelo :: "string \<Rightarrow> string" where
  "extraer_modelo version_info = modelo_lineas (lineas_de version_info)"

definition es_olt_vsol :: "string \<Rightarrow> bool" where
  "es_olt_vsol version_info =
     (if version_info = [] then False
      else list_ex (\<lambda>indicator. py_in indicator (py_upper version_info))
             [''VSOL'', ''V-SOL'', ''GPON'', ''OLT''])"

section \<open>Records, configuration and the network\<close>

text \<open>
  The dataclasses \<open>ONUInfo\<close> and \<open>OLTInfo\<close>. The time stamp
  \<open>ultima_actualizacion\<close> is left out. \<open>snmp_community\<close> is the attribute that the
  scan attaches to a record found over SNMP; \<open>None\<close> is the absent attribute
  (\<open>hasattr\<close> is false).
\<close>

record ONUInfo =
  serial :: string
  interfaz :: string
  slot :: string
  puerto :: string
  rx_power :: pyfloat
  tx_power :: pyfloat
  estado :: string
  consumo_bytes :: int

record OLTInfo =
  ip :: string
  nombre :: string
  modelo :: string
  temperatura :: "pyfloat option"
  consumo_cpu :: "pyfloat option"
  consumo_memoria :: "pyfloat option"
  total_onus :: nat
  onus_por_puerto :: "(string \<times> nat) list"
  onus_detalladas :: "ONUInfo list"
  snmp_community :: "string option"

record credencial =
  username :: string
  password :: string

text \<open>
  The attributes of \<open>VSOLMonitorEmpresarial\<close> set by the constructor.
  \<open>SNMP_CONFIG\<close> is imported from \<open>config\<close>; its community list is a parameter.
\<close>

record configuracion =
  rangos_ip :: "string list"
  credenciales :: "credencial list"
  communities :: "string list"

text \<open>
  A shell session answers a command with the text that \<open>ejecutar_comando\<close> returns
  (the empty text when the command raises).
\<close>

type_synonym sesion = "string \<Rightarrow> string"

text \<open>
  What the network answers. \<open>snmp_get\<close> and \<open>snmp_walk\<close> catch every exception
  themselves, so they are total: \<open>None\<close> is the answer to an error or a timeout.
  \<open>ssh_connect\<close> is \<open>None\<close> when \<open>ssh.connect\<close> raises.
\<close>

record red =
  snmp_get :: "string \<Rightarrow> string \<Rightarrow> string \<Rightarrow> string option"
  snmp_walk :: "string \<Rightarrow> string \<Rightarrow> string \<Rightarrow> (string \<times> string) list"
  puerto_abierto :: "string \<Rightarrow> nat \<Rightarrow> bool"
  ssh_connect :: "string \<Rightarrow> string \<Rightarrow> string \<Rightarrow> sesion option"

text \<open>
  The effects of the code, in the order it performs them: protocol requests and the calls
  of the \<open>DatabaseManager\<close>. The random byte counts of \<open>guardar_trafico\<close> are left
  out.
\<close>

datatype evento =
    SnmpGet string string string
  | SnmpWalk string string string
  | PuertoAbierto string nat
  | SshConnect string string string
  | SshExec string string
  | SshClose string
  | GuardarOlt string
  | GuardarOnu string string
  | GuardarMetrica string string pyfloat
  | GuardarTrafico string string

subsection \<open>Dictionaries\<close>

text \<open>
  A \<open>dict\<close> is a list of pairs in insertion order. \<open>d[k] = v\<close> replaces the value
  of a present key where it stands and appends an absent one.
\<close>

fun dict_set :: "'k \<Rightarrow> 'v \<Rightarrow> ('k \<times> 'v) list \<Rightarrow> ('k \<times> 'v) list" where
  "dict_set k v [] = [(k, v)]"
| "dict_set k v ((k', v') # d) =
     (if k = k' then (k, v) # d else (k', v') # dict_set k v d)"

definition dict_get :: "('k \<times> 'v) list \<Rightarrow> 'k \<Rightarrow> 'v option" where
  "dict_get d k = map_of d k"

section \<open>SNMP prober\<close>

definition oid_sysdescr :: string where
  "oid_sysdescr = ''1.3.6.1.2.1.1.1.0''"

definition oid_sysname :: string where
  "oid_sysname = ''1.3.6.1.2.1.1.5.0''"

text \<open>The dictionary that \<open>probar_snmp_olt\<close> returns.\<close>

record snmp_hallazgo =
  h_ip :: string
  h_nombre :: string
  h_modelo :: string
  h_community :: string

definition marcadores_snmp :: "string list" where
  "marcadores_snmp = [''VSOL'', ''OLT'', ''GPON'']"

text \<open>
  The test \<open>sysdescr and ('VSOL' in sysdescr.upper() or 'OLT' in sysdescr.upper() or
  'GPON' in sysdescr.upper())\<close> on the answer of \<open>snmp_get\<close>.
\<close>

definition sysdescr_ok :: "string option \<Rightarrow> bool" where
  "sysdescr_ok sysdescr =
     (case sysdescr of
        None \<Rightarrow> False
      | Some d \<Rightarrow> d \<noteq> [] \<and> list_ex (\<lambda>m. py_in m (py_upper d)) marcadores_snmp)"

text \<open>\<open>self.snmp_get(ip, sysName, community) or f"OLT-{ip.split('.')[-1]}"\<close>.\<close>

definition nombre_snmp :: "string option \<Rightarrow> string \<Rightarrow> string" where
  "nombre_snmp sysname addr =
     (case sysname of
        None \<Rightarrow> ''OLT-'' @ last (py_split_on (CHR ''.'') addr)
      | Some n \<Rightarrow> if n = [] then ''OLT-'' @ last (py_split_on (CHR ''.'') addr) else n)"

definition modelo_snmp :: "string option \<Rightarrow> string" where
  "modelo_snmp sysdescr =
     (case sysdescr of
        None \<Rightarrow> ''VSOL-OLT-SNMP''
      | Some d \<Rightarrow> if d = [] then ''VSOL-OLT-SNMP'' else take 50 d)"

fun probar_snmp_olt :: "red \<Rightarrow> string list \<Rightarrow> string \<Rightarrow> snmp_hallazgo option \<times> evento list" where
  "probar_snmp_olt net [] addr = (None, [])"
| "probar_snmp_olt net (community # cs) addr =
     (let sysdescr = snmp_get net addr oid_sysdescr community
      in if sysdescr_ok sysdescr then
           (Some \<lparr>h_ip = addr,
                  h_nombre = nombre_snmp (snmp_get net addr oid_sysname community) addr,
                  h_modelo = modelo_snmp sysdescr, h_community = community\<rparr>,
            [SnmpGet addr oid_sysdescr community, SnmpGet addr oid_sysname community])
         else (case probar_snmp_olt net cs addr of
                 (r, ev) \<Rightarrow> (r, SnmpGet addr oid_sysdescr community # ev)))"

section \<open>Per-unit telemetry\<close>

definition comandos_detalle :: "string \<Rightarrow> string \<Rightarrow> string list" where
  "comandos_detalle ifz onu_id =
     [''show gpon onu detail '' @ ifz @ '' '' @ onu_id,
      ''show onu opm-diag '' @ ifz @ '' '' @ onu_id,
      ''show gpon onu optical-info '' @ ifz @ '' '' @ onu_id]"

text \<open>
  The loop of \<open>obtener_detalles_onu\<close> over the alternative commands. A
  \<open>ValueError\<close> of an extractor is caught by the function's \<open>except\<close>, which
  returns \<open>(None, -999, -999)\<close>.
\<close>

fun detalles_comandos ::
  "sesion \<Rightarrow> string \<Rightarrow> string list \<Rightarrow> (string option \<times> pyfloat \<times> pyfloat) \<times> evento list" where
  "detalles_comandos ssh addr [] = ((None, sin_lectura, sin_lectura), [])"
| "detalles_comandos ssh addr (cmd # cmds) =
     (let output = ssh cmd
      in if output \<noteq> [] \<and> \<not> py_in ''invalid'' (py_lower output) then
           (case extraer_rx_power output of
              Inl e \<Rightarrow> ((None, sin_lectura, sin_lectura), [SshExec addr cmd])
            | Inr rx \<Rightarrow>
                (case extraer_tx_power output of
                   Inl e \<Rightarrow> ((None, sin_lectura, sin_lectura), [SshExec addr cmd])
                 | Inr tx \<Rightarrow> ((extraer_serial output, rx, tx), [SshExec addr cmd])))
         else (case detalles_comandos ssh addr cmds of
                 (r, ev) \<Rightarrow> (r, SshExec addr cmd # ev)))"

definition obtener_detalles_onu ::
  "sesion \<Rightarrow> string \<Rightarrow> string \<Rightarrow> string \<Rightarrow> (string option \<times> pyfloat \<times> pyfloat) \<times> evento list" where
  "obtener_detalles_onu ssh addr ifz onu_id =
     detalles_comandos ssh addr (comandos_detalle ifz onu_id)"

text \<open>
  Slot and port of an interface name: the second and third field between slashes, or
  \<open>'0'\<close> without a slash. A name with a single slash has no third field and the index
  raises \<open>IndexError\<close>.
\<close>

definition slot_puerto :: "string \<Rightarrow> pyerror + (string \<times> string)" where
  "slot_puerto ifz =
     (if py_in ''/'' ifz then
        (case py_split_on (CHR ''/'') ifz of
           a # b # c # rest \<Rightarrow> Inr (b, c)
         | _ \<Rightarrow> Inl IndexError)
      else Inr (''0'', ''0''))"

text \<open>
  The loop of \<open>obtener_informacion_onus\<close> over the lines of the unit listing. An
  exception ends the loop; the units built so far are returned.
\<close>

fun onus_lineas :: "sesion \<Rightarrow> string \<Rightarrow> string list \<Rightarrow> ONUInfo list \<times> evento list" where
  "onus_lineas ssh addr [] = ([], [])"
| "onus_lineas ssh addr (linea # lineas) =
     (if py_in ''gpon'' (py_lower linea) \<and> py_in ''onu'' (py_lower linea) then
        (case py_split linea of
           p0 # p1 # p2 # p3 # rest \<Rightarrow>
             (case slot_puerto p0 of
                Inl e \<Rightarrow> ([], [])
              | Inr (sl, pu) \<Rightarrow>
                  (case obtener_detalles_onu ssh addr p0 p1 of
                     ((ser, rx, tx), ev) \<Rightarrow>
                       (let onu = \<lparr>serial = (case ser of
                                                None \<Rightarrow> ''UNKNOWN-'' @ p0 @ ''-'' @ p1
                                              | Some s \<Rightarrow> if s = [] then ''UNKNOWN-'' @ p0 @ ''-'' @ p1
                                                          else s),
                                    interfaz = p0, slot = sl, puerto = pu,
                                    rx_power = rx, tx_power = tx, estado = p2,
                                    consumo_bytes = 0\<rparr>
                        in (case onus_lineas ssh addr lineas of
                              (onus, ev') \<Rightarrow>
                                (onu # onus,
                                 ev @ [GuardarOnu (serial onu) addr,
                                       GuardarTrafico addr (serial onu)] @ ev')))))
         | _ \<Rightarrow> onus_lineas ssh addr lineas)
      else onus_lineas ssh addr lineas)"

definition obtener_informacion_onus :: "sesion \<Rightarrow> string \<Rightarrow> ONUInfo list \<times> evento list" where
  "obtener_informacion_onus ssh addr =
     (case onus_lineas ssh addr (lineas_de (ssh ''show gpon onu state'')) of
        (onus, ev) \<Rightarrow> (onus, SshExec addr ''show gpon onu state'' # ev))"

fun contar_onus_por_puerto :: "ONUInfo list \<Rightarrow> (string \<times> nat) list \<Rightarrow> (string \<times> nat) list" where
  "contar_onus_por_puerto [] conteo = conteo"
| "contar_onus_por_puerto (onu # onus) conteo =
     contar_onus_por_puerto onus
       (dict_set (interfaz onu)
          ((case dict_get conteo (interfaz onu) of None \<Rightarrow> 0 | Some n \<Rightarrow> n) + 1) conteo)"

section \<open>Telemetry refresh of one device\<close>

text \<open>The guarded call \<open>if valor: self.db.guardar_metrica(ip, tipo, valor)\<close>.\<close>

definition metrica_si :: "string \<Rightarrow> string \<Rightarrow> pyfloat option \<Rightarrow> evento list" where
  "metrica_si addr tipo valor =
     (case valor of
        None \<Rightarrow> []
      | Some v \<Rightarrow> if truthy v then [GuardarMetrica addr tipo v] else [])"

text \<open>
  \<open>actualizar_informacion_olt\<close>. The body is one \<open>try\<close> block: a
  \<open>ValueError\<close> of \<open>extraer_temperatura\<close> leaves the record as it was.
\<close>

definition actualizar_informacion_olt :: "sesion \<Rightarrow> OLTInfo \<Rightarrow> OLTInfo \<times> evento list" where
  "actualizar_informacion_olt ssh olt =
     (case extraer_temperatura (ssh ''show system temperature'') of
        Inl e \<Rightarrow> (olt, [SshExec (ip olt) ''show system temperature''])
      | Inr t \<Rightarrow>
          (let cpu = extraer_porcentaje (ssh ''show cpu usage'');
               mem = extraer_porcentaje (ssh ''show memory usage'')
           in (case obtener_informacion_onus ssh (ip olt) of
                 (onus, ev) \<Rightarrow>
                   (olt\<lparr>temperatura := t, consumo_cpu := cpu, consumo_memoria := mem,
                        onus_detalladas := onus, total_onus := length onus,
                        onus_por_puerto := contar_onus_por_puerto onus []\<rparr>,
                    [SshExec (ip olt) ''show system temperature'']
                    @ metrica_si (ip olt) ''temperatura'' t
                    @ [SshExec (ip olt) ''show cpu usage'',
                       SshExec (ip olt) ''show memory usage'']
                    @ metrica_si (ip olt) ''cpu'' cpu
                    @ metrica_si (ip olt) ''memoria'' mem
                    @ ev))))"

section \<open>Command-shell prober\<close>

text \<open>The record that \<open>OLTInfo(ip=..., nombre=..., modelo=...)\<close> builds.\<close>

definition nueva_olt :: "string \<Rightarrow> string \<Rightarrow> string \<Rightarrow> OLTInfo" where
  "nueva_olt addr nom modl =
     \<lparr>ip = addr, nombre = nom, modelo = modl, temperatura = None, consumo_cpu = None,
      consumo_memoria = None, total_onus = 0, onus_por_puerto = [], onus_detalladas = [],
      snmp_community = None\<rparr>"

text \<open>
  \<open>identificar_olt_vsol\<close>: the loop over the credentials. A connection that raises
  goes on with the next credential; so does a session whose version text has no marker,
  after it is closed.
\<close>

fun identificar_olt_vsol ::
  "red \<Rightarrow> string \<Rightarrow> credencial list \<Rightarrow> string \<Rightarrow> OLTInfo option \<times> evento list" where
  "identificar_olt_vsol net hhmm [] addr = (None, [])"
| "identificar_olt_vsol net hhmm (cred # creds) addr =
     (case ssh_connect net addr (username cred) (password cred) of
        None \<Rightarrow>
          (case identificar_olt_vsol net hhmm creds addr of
             (r, ev) \<Rightarrow> (r, SshConnect addr (username cred) (password cred) # ev))
      | Some ssh \<Rightarrow>
          (let version_info = ssh ''show version'';
               system_info = ssh ''show system'';
               pre = [SshConnect addr (username cred) (password cred),
                      SshExec addr ''show version'', SshExec addr ''show system'']
           in if es_olt_vsol version_info then
                (case actualizar_informacion_olt ssh
                        (nueva_olt addr (extraer_nombre_sistema hhmm system_info)
                           (extraer_modelo version_info)) of
                   (olt, ev) \<Rightarrow> (Some olt, pre @ ev @ [SshClose addr]))
              else
                (case identificar_olt_vsol net hhmm creds addr of
                   (r, ev) \<Rightarrow> (r, pre @ [SshClose addr] @ ev))))"

section \<open>Discovery\<close>

text \<open>
  The monitor's state: the dictionary \<open>olts_detectadas\<close> and the effects performed so
  far.
\<close>

record monitor =
  olts_detectadas :: "(string \<times> OLTInfo) list"
  eventos :: "evento list"

text \<open>The decimal text of a number, as an f-string prints it.\<close>

definition cifra :: "nat \<Rightarrow> char" where
  "cifra n = ''0123456789'' ! (n mod 10)"

function str_de_nat :: "nat \<Rightarrow> string" where
  "str_de_nat n = (if n < 10 then [cifra n] else str_de_nat (n div 10) @ [cifra n])"
  by pat_completeness auto
termination
  by (relation "measure (\<lambda>n. n)") auto

declare str_de_nat.simps [simp del]

text \<open>
  \<open>verificar_ip\<close>: SNMP first; without an SNMP match the shell prober runs when port
  22 is open. A match is stored under the address and mirrored to the database.
\<close>

definition verificar_ip :: "red \<Rightarrow> configuracion \<Rightarrow> string \<Rightarrow> string \<Rightarrow> monitor \<Rightarrow> monitor" where
  "verificar_ip net cfg hhmm addr m =
     (case probar_snmp_olt net (communities cfg) addr of
        (Some h, ev) \<Rightarrow>
          (let olt = (nueva_olt (h_ip h) (h_nombre h) (h_modelo h))
                       \<lparr>snmp_community := Some (h_community h)\<rparr>
           in m\<lparr>olts_detectadas := dict_set addr olt (olts_detectadas m),
                eventos := eventos m @ ev @ [GuardarOlt (ip olt)]\<rparr>)
      | (None, ev) \<Rightarrow>
          (if puerto_abierto net addr 22 then
             (case identificar_olt_vsol net hhmm (credenciales cfg) addr of
                (Some olt, ev') \<Rightarrow>
                  m\<lparr>olts_detectadas := dict_set addr olt (olts_detectadas m),
                    eventos := eventos m @ ev @ [PuertoAbierto addr 22] @ ev'
                               @ [GuardarOlt (ip olt)]\<rparr>
              | (None, ev') \<Rightarrow>
                  m\<lparr>eventos := eventos m @ ev @ [PuertoAbierto addr 22] @ ev'\<rparr>)
           else m\<lparr>eventos := eventos m @ ev @ [PuertoAbierto addr 22]\<rparr>))"

text \<open>
  The addresses of one range, \<open>for i in range(1, 254)\<close>, and of all ranges. The worker
  threads are run one after the other, in the order of submission.
\<close>

definition direcciones_rango :: "string \<Rightarrow> string list" where
  "direcciones_rango rango_ip = map (\<lambda>i. rango_ip @ str_de_nat i) [1..<254]"

definition direcciones :: "configuracion \<Rightarrow> string list" where
  "direcciones cfg = concat (map direcciones_rango (rangos_ip cfg))"

definition escanear_red_empresarial ::
  "red \<Rightarrow> configuracion \<Rightarrow> string \<Rightarrow> monitor \<Rightarrow> monitor" where
  "escanear_red_empresarial net cfg hhmm m =
     fold (verificar_ip net cfg hhmm) (direcciones cfg) m"

section \<open>Refresh pass\<close>

datatype info_valor =
    Texto "string option"
  | Interfaces "(string \<times> string) list"
  | Numero nat

text \<open>
  \<open>obtener_info_snmp_olt\<close> fills a dictionary with five keys; none of its calls
  raises, so the \<open>except\<close> branch that returns the empty dictionary is not taken.
\<close>

definition obtener_info_snmp_olt ::
  "red \<Rightarrow> string \<Rightarrow> string \<Rightarrow> (string \<times> info_valor) list \<times> evento list" where
  "obtener_info_snmp_olt net addr community =
     (let interfaces = snmp_walk net addr ''1.3.6.1.2.1.2.2.1.2'' community;
          onu_info = snmp_walk net addr ''1.3.6.1.4.1'' community
      in ([(''sysDescr'', Texto (snmp_get net addr ''1.3.6.1.2.1.1.1.0'' community)),
           (''sysName'', Texto (snmp_get net addr ''1.3.6.1.2.1.1.5.0'' community)),
           (''sysLocation'', Texto (snmp_get net addr ''1.3.6.1.2.1.1.6.0'' community)),
           (''interfaces'',
              Interfaces (map (\<lambda>(oid, v). (last (py_split_on (CHR ''.'') oid), v))
                            (filter (\<lambda>(oid, v). v \<noteq> []) interfaces))),
           (''onu_count'',
              Numero (length (filter (\<lambda>(oid, v). py_in ''onu'' (py_lower v)) onu_info)))],
          [SnmpGet addr ''1.3.6.1.2.1.1.1.0'' community,
           SnmpGet addr ''1.3.6.1.2.1.1.5.0'' community,
           SnmpGet addr ''1.3.6.1.2.1.1.6.0'' community,
           SnmpWalk addr ''1.3.6.1.2.1.2.2.1.2'' community,
           SnmpWalk addr ''1.3.6.1.4.1'' community]))"

text \<open>\<open>actualizar_olt_snmp\<close>: true when the record has a community and the dictionary
  of \<open>obtener_info_snmp_olt\<close> is not empty. It does not change the record.\<close>

definition actualizar_olt_snmp :: "red \<Rightarrow> OLTInfo \<Rightarrow> bool \<times> evento list" where
  "actualizar_olt_snmp net olt =
     (case snmp_community olt of
        None \<Rightarrow> (False, [])
      | Some community \<Rightarrow>
          (case obtener_info_snmp_olt net (ip olt) community of
             (info, ev) \<Rightarrow> (info \<noteq> [], ev)))"

text \<open>
  One iteration of the loop of \<open>actualizar_todas_olts\<close>: the record after it, whether
  the device counts as refreshed, and the effects. \<open>self.credenciales[0]\<close> raises on
  an empty list and \<open>ssh.connect\<close> may raise; both are caught and leave the record.
\<close>

definition actualizar_olt ::
  "red \<Rightarrow> configuracion \<Rightarrow> string \<Rightarrow> OLTInfo \<Rightarrow> OLTInfo \<times> bool \<times> evento list" where
  "actualizar_olt net cfg addr olt =
     (let (ok, ev) = (if snmp_community olt \<noteq> None then actualizar_olt_snmp net olt
                      else (False, []))
      in if ok then (olt, True, ev)
         else (case credenciales cfg of
                 [] \<Rightarrow> (olt, False, ev)
               | cred # creds \<Rightarrow>
                   (case ssh_connect net addr (username cred) (password cred) of
                      None \<Rightarrow>
                        (olt, False, ev @ [SshConnect addr (username cred) (password cred)])
                    | Some ssh \<Rightarrow>
                        (case actualizar_informacion_olt ssh olt of
                           (olt', ev') \<Rightarrow>
                             (olt', True,
                              ev @ [SshConnect addr (username cred) (password cred)] @ ev'
                              @ [SshClose addr])))))"



section \<open>Aggregate statistics\<close>

text \<open>
  The dictionary that \<open>obtener_estadisticas\<close> returns, without its time stamp. The
  low-signal count is spelled \<open>onus_senal_baja\<close> in ASCII.
\<close>

record estadisticas =
  total_olts :: nat
  total_onus_e :: nat
  olts_online :: nat
  onus_senal_baja :: nat

text \<open>The test \<open>onu.rx_power < -27\<close>.\<close>

definition senal_baja :: "ONUInfo \<Rightarrow> bool" where
  "senal_baja onu = float_less (rx_power onu) (- 27)"

fun contar_senal_baja_onus :: "ONUInfo list \<Rightarrow> nat \<Rightarrow> nat" where
  "contar_senal_baja_onus [] n = n"
| "contar_senal_baja_onus (onu # onus) n =
     contar_senal_baja_onus onus (if senal_baja onu then n + 1 else n)"

fun contar_senal_baja :: "OLTInfo list \<Rightarrow> nat \<Rightarrow> nat" where
  "contar_senal_baja [] n = n"
| "contar_senal_baja (olt # olts) n =
     contar_senal_baja olts (contar_senal_baja_onus (onus_detalladas olt) n)"

definition obtener_estadisticas :: "monitor \<Rightarrow> estadisticas" where
  "obtener_estadisticas m =
     \<lparr>total_olts = length (olts_detectadas m),
      total_onus_e = sum_list (map (\<lambda>(k, olt). total_onus olt) (olts_detectadas m)),
      olts_online = length (olts_detectadas m),
      onus_senal_baja = contar_senal_baja (map snd (olts_detectadas m)) 0\<rparr>"

section \<open>Reading the effects\<close>

text \<open>The metric samples handed to the database, in order.\<close>

fun metricas :: "evento list \<Rightarrow> (string \<times> string \<times> pyfloat) list" where
  "metricas [] = []"
| "metricas (GuardarMetrica a tipo v # es) = (a, tipo, v) # metricas es"
| "metricas (e # es) = metricas es"

text \<open>The shell connections attempted, in order: address, user name, password.\<close>

fun intentos :: "evento list \<Rightarrow> (string \<times> string \<times> string) list" where
  "intentos [] = []"
| "intentos (SshConnect a u p # es) = (a, u, p) # intentos es"
| "intentos (e # es) = intentos es"

text \<open>The community of an SNMP request; \<open>None\<close> for any other effect.\<close>

fun comunidad_de :: "evento \<Rightarrow> string option" where
  "comunidad_de (SnmpGet a oid c) = Some c"
| "comunidad_de (SnmpWalk a oid c) = Some c"
| "comunidad_de e = None"

text \<open>All units of the inventory, device by device.\<close>

definition todas_onus :: "monitor \<Rightarrow> ONUInfo list" where
  "todas_onus m = concat (map onus_detalladas (map snd (olts_detectadas m)))"

text \<open>
  A sample as the specification words it: recorded when the value is present and is not
  zero.
\<close>

definition muestra :: "string \<Rightarrow> string \<Rightarrow> pyfloat option \<Rightarrow> (string \<times> string \<times> pyfloat) list" where
  "muestra addr tipo valor =
     (case valor of
        None \<Rightarrow> []
      | Some v \<Rightarrow> if v = Num 0 then [] else [(addr, tipo, v)])"

text \<open>Example data: a unit with a given receive power, and a device with three units.\<close>

definition onu_con_rx :: "string \<Rightarrow> rat \<Rightarrow> ONUInfo" where
  "onu_con_rx sn q =
     \<lparr>serial = sn, interfaz = ''gpon-olt_1/1/1'', slot = ''1'', puerto = ''1'',
      rx_power = Num q, tx_power = Num 2, estado = ''online'', consumo_bytes = 0\<rparr>"

definition olt_tres_onus :: OLTInfo where
  "olt_tres_onus =
     (nueva_olt ''192.168.1.100'' ''OLT-Central'' ''VSOL-OLT-1000'')
       \<lparr>total_onus := 3,
        onus_detalladas := [onu_con_rx ''VSOL001'' (- 20), onu_con_rx ''VSOL002'' (- 28),
                            onu_con_rx ''VSOL003'' (- 30)]\<rparr>"

text \<open>Example data: a session that lists one unit and answers nothing else.\<close>

definition sesion_muda :: sesion where
  "sesion_muda cmd =
     (if cmd = ''show gpon onu state'' then ''gpon-onu_1/1/1 1 online 00:01'' else [])"

text \<open>Example data: a session that reports a temperature and a memory load of zero.\<close>

definition sesion_cero :: sesion where
  "sesion_cero cmd =
     (if cmd = ''show system temperature'' then ''Temperature: 0''
      else if cmd = ''show cpu usage'' then ''CPU usage: 12%''
      else if cmd = ''show memory usage'' then ''Memory usage: 0.0%''
      else [])"

text \<open>Example data: an inventory whose only device was refreshed over the silent session.\<close>

definition monitor_mudo :: monitor where
  "monitor_mudo =
     \<lparr>olts_detectadas =
        [(''10.0.0.9'',
          fst (actualizar_informacion_olt sesion_muda (nueva_olt ''10.0.0.9'' ''OLT-9'' ''VSOL-OLT'')))],
      eventos = []\<rparr>"

text \<open>
  The specification's words for the SNMP match, to be compared with the test of the
  source: a marker is contained in a description as a case-insensitive substring when
  some substring of the description equals the marker once both are upper-cased.
\<close>

definition contiene_sin_caja :: "string \<Rightarrow> string \<Rightarrow> bool" where
  "contiene_sin_caja m d = (\<exists>pre x post. d = pre @ x @ post \<and> py_upper x = py_upper m)"

text \<open>
  The specification's match: the query succeeded and the description contains one of
  the markers as a case-insensitive substring.
\<close>

definition coincide_segun_spec :: "string option \<Rightarrow> bool" where
  "coincide_segun_spec sysdescr =
     (case sysdescr of
        None \<Rightarrow> False
      | Some d \<Rightarrow> \<exists>m \<in> set marcadores_snmp. contiene_sin_caja m d)"

text \<open>
  A credential is accepted at an address when the connection succeeds and the version
  text of the session passes \<open>es_olt_vsol\<close>: the case in which
  \<open>identificar_olt_vsol\<close> returns.
\<close>

definition acepta :: "red \<Rightarrow> string \<Rightarrow> credencial \<Rightarrow> bool" where
  "acepta net addr cred =
     (case ssh_connect net addr (username cred) (password cred) of
        None \<Rightarrow> False
      | Some ssh \<Rightarrow> es_olt_vsol (ssh ''show version''))"

text \<open>Example data: three credentials and two sessions, one of them not of an OLT.\<close>

definition cred_a :: credencial where "cred_a = \<lparr>username = ''admin'', password = ''A''\<rparr>"
definition cred_b :: credencial where "cred_b = \<lparr>username = ''admin'', password = ''B''\<rparr>"
definition cred_c :: credencial where "cred_c = \<lparr>username = ''admin'', password = ''C''\<rparr>"

definition sesion_router :: sesion where
  "sesion_router cmd = (if cmd = ''show version'' then ''Linux 5.10 generic router'' else [])"

definition sesion_olt :: sesion where
  "sesion_olt cmd = (if cmd = ''show version'' then ''V-SOL GPON OLT V1600'' else [])"

text \<open>Example data: a network on which only the password \<open>B\<close> opens a session.\<close>

definition red_solo_b :: "sesion \<Rightarrow> red" where
  "red_solo_b ssh =
     \<lparr>snmp_get = (\<lambda>a oid c. None), snmp_walk = (\<lambda>a oid c. []),
      puerto_abierto = (\<lambda>a p. True),
      ssh_connect = (\<lambda>a u p. if p = ''B'' then Some ssh else None)\<rparr>"

text \<open>Example data: a configuration with the credentials \<open>A\<close> and \<open>B\<close>.\<close>

definition cfg_ab :: configuracion where
  "cfg_ab = \<lparr>rangos_ip = [''10.0.0.''], credenciales = [cred_a, cred_b],
             communities = [''public'']\<rparr>"

text \<open>Example data: a network on which nothing answers.\<close>

definition red_apagada :: red where
  "red_apagada =
     \<lparr>snmp_get = (\<lambda>a oid c. None), snmp_walk = (\<lambda>a oid c. []),
      puerto_abierto = (\<lambda>a p. False), ssh_connect = (\<lambda>a u p. None)\<rparr>"

text \<open>Example data: a record as the scan stores it after an SNMP match.\<close>

definition olt_por_snmp :: OLTInfo where
  "olt_por_snmp = (nueva_olt ''10.0.0.7'' ''OLT-7'' ''vsol gpon olt v2'')
                    \<lparr>snmp_community := Some ''public''\<rparr>"


text \<open>
  The record that \<open>verificar_ip\<close> stores for an address, if any: the SNMP match, or
  else the match of the shell prober when port 22 is open.
\<close>

definition hallado :: "red \<Rightarrow> configuracion \<Rightarrow> string \<Rightarrow> string \<Rightarrow> OLTInfo option" where
  "hallado net cfg hhmm addr =
     (case probar_snmp_olt net (communities cfg) addr of
        (Some h, ev) \<Rightarrow>
          Some ((nueva_olt (h_ip h) (h_nombre h) (h_modelo h))
                  \<lparr>snmp_community := Some (h_community h)\<rparr>)
      | (None, ev) \<Rightarrow>
          if puerto_abierto net addr 22
          then fst (identificar_olt_vsol net hhmm (credenciales cfg) addr)
          else None)"

text \<open>The unit count of every inventoried device, in the order of the dictionary.\<close>

definition conteos :: "monitor \<Rightarrow> (string \<times> nat) list" where
  "conteos m = map (\<lambda>(k, olt). (k, total_onus olt)) (olts_detectadas m)"

text \<open>
  The unit count of the record found at an address, and the step of a scan on the
  table of unit counts. The count does not depend on the clock, which only enters the
  fall-back name.
\<close>

definition cuenta :: "red \<Rightarrow> configuracion \<Rightarrow> string \<Rightarrow> nat option" where
  "cuenta net cfg addr = map_option total_onus (hallado net cfg [] addr)"

definition paso_conteo ::
  "red \<Rightarrow> configuracion \<Rightarrow> string \<Rightarrow> (string \<times> nat) list \<Rightarrow> (string \<times> nat) list" where
  "paso_conteo net cfg addr v =
     (case cuenta net cfg addr of
        None \<Rightarrow> v
      | Some n \<Rightarrow> dict_set addr n v)"

text \<open>
  Example data: a session that lists two units, a network with one device that answers
  SNMP and one that answers the shell, and the empty inventory.
\<close>

definition sesion_dos_onus :: sesion where
  "sesion_dos_onus cmd =
     (if cmd = ''show version'' then ''V-SOL GPON OLT V1600''
      else if cmd = ''show gpon onu state''
      then ''gpon-onu_1/1/1 1 online 00:01\<newline>gpon-onu_1/1/2 2 online 00:02''
      else [])"

definition red_dos_olts :: red where
  "red_dos_olts =
     \<lparr>snmp_get = (\<lambda>a oid c. if a = ''10.0.0.7'' \<and> oid = oid_sysdescr \<and> c = ''public''
                              then Some ''vsol gpon olt v2'' else None),
      snmp_walk = (\<lambda>a oid c. []),
      puerto_abierto = (\<lambda>a p. a = ''10.0.0.9''),
      ssh_connect = (\<lambda>a u p. if a = ''10.0.0.9'' \<and> p = ''B'' then Some sesion_dos_onus
                               else None)\<rparr>"

definition monitor_vacio :: monitor where
  "monitor_vacio = \<lparr>olts_detectadas = [], eventos = []\<rparr>"




section \<open>Evaluation rules and helper lemmas\<close>

lemmas texto_simps = lineas_de_def py_lower_def py_lower_char_def py_upper_def py_upper_char_def
  py_split_def py_isspace_def py_isdigit_def is_digit_def py_remove_def py_strip_def

lemmas float_simps = py_float_def absfloat_def floatnumber_def digitpart_def exponent_def
  scale_def digits_val_def digit_val_def

lemma metricas_append: "metricas (xs @ ys) = metricas xs @ metricas ys"
  by (induction xs rule: metricas.induct) simp_all

lemma intentos_append: "intentos (xs @ ys) = intentos xs @ intentos ys"
  by (induction xs rule: intentos.induct) simp_all

lemma potencia_sin_linea:
  "\<forall>l \<in> set ls. \<not> (py_in kw (py_lower l) \<and> py_in ''power'' (py_lower l))
   \<Longrightarrow> potencia_lineas kw ls = Inr sin_lectura"
  by (induction ls) auto

lemma temperatura_sin_linea:
  "\<forall>l \<in> set ls. \<not> py_in ''temperature'' (py_lower l) \<Longrightarrow> temperatura_lineas ls = Inr None"
  by (induction ls) simp_all

lemma metricas_detalles: "metricas (snd (detalles_comandos ssh addr cmds)) = []"
  by (induction cmds) (auto simp: Let_def split: sum.splits prod.splits)

lemma metricas_detalles_ev: "detalles_comandos ssh addr cmds = (r, ev) \<Longrightarrow> metricas ev = []"
  using metricas_detalles [of ssh addr cmds] by simp

lemma metricas_onus_lineas: "metricas (snd (onus_lineas ssh addr ls)) = []"
  by (induction ls)
     (auto simp: Let_def metricas_append obtener_detalles_onu_def dest: metricas_detalles_ev
           split: sum.splits prod.splits list.splits)

lemma metricas_onus: "metricas (snd (obtener_informacion_onus ssh addr)) = []"
  using metricas_onus_lineas [of ssh addr "lineas_de (ssh ''show gpon onu state'')"]
  by (auto simp: obtener_informacion_onus_def split: prod.splits)

lemma metricas_metrica_si: "metricas (metrica_si addr tipo v) = muestra addr tipo v"
  by (cases v) (auto simp: metrica_si_def muestra_def elim: truthy.elims)

lemma contar_senal_baja_onus_filter:
  "contar_senal_baja_onus onus n = n + length (filter senal_baja onus)"
  by (induction onus arbitrary: n) simp_all

lemma contar_senal_baja_filter:
  "contar_senal_baja olts n = n + length (filter senal_baja (concat (map onus_detalladas olts)))"
  by (induction olts arbitrary: n) (simp_all add: contar_senal_baja_onus_filter)

lemma senal_baja_total:
  "onus_senal_baja (obtener_estadisticas m) = length (filter senal_baja (todas_onus m))"
  by (simp add: obtener_estadisticas_def todas_onus_def contar_senal_baja_filter)

lemma length_filter_mono:
  "(\<And>x. P x \<Longrightarrow> Q x) \<Longrightarrow> length (filter P xs) \<le> length (filter Q xs)"
  by (induction xs) auto

lemma detalles_sin_respuesta:
  "\<forall>cmd \<in> set cmds. ssh cmd = [] \<or> py_in ''invalid'' (py_lower (ssh cmd))
   \<Longrightarrow> fst (detalles_comandos ssh addr cmds) = (None, sin_lectura, sin_lectura)"
  by (induction cmds) (auto simp: Let_def split: prod.splits)

lemma onus_mudo: "map rx_power (todas_onus monitor_mudo) = [Num (- 999)]"
  by (simp add: monitor_mudo_def todas_onus_def actualizar_informacion_olt_def sesion_muda_def
     extraer_temperatura_def extraer_porcentaje_def obtener_informacion_onus_def nueva_olt_def
     obtener_detalles_onu_def comandos_detalle_def slot_puerto_def sin_lectura_def texto_simps)

lemma cero_t: "extraer_temperatura (sesion_cero ''show system temperature'') = Inr (Some (Num 0))"
  by (simp add: sesion_cero_def extraer_temperatura_def texto_simps float_simps)

lemma cero_cpu: "extraer_porcentaje (sesion_cero ''show cpu usage'') = Some (Num 12)"
  by (simp add: sesion_cero_def extraer_porcentaje_def texto_simps float_simps)

lemma cero_mem: "extraer_porcentaje (sesion_cero ''show memory usage'') = Some (Num 0)"
  by (simp add: sesion_cero_def extraer_porcentaje_def texto_simps float_simps)

lemma py_startswith_iff: "py_startswith s p = (\<exists>post. s = p @ post)"
  by (induction s p rule: py_startswith.induct) auto

lemma py_in_iff: "py_in p s = (\<exists>pre post. s = pre @ p @ post)"
proof (induction s)
  case Nil
  then show ?case by auto
next
  case (Cons c cs)
  show ?case
  proof
    assume "py_in p (c # cs)"
    then consider "py_startswith (c # cs) p" | "py_in p cs" by auto
    then show "\<exists>pre post. c # cs = pre @ p @ post"
    proof cases
      case 1
      then obtain post where "c # cs = p @ post" by (auto simp: py_startswith_iff)
      then have "c # cs = [] @ p @ post" by simp
      then show ?thesis by blast
    next
      case 2
      then obtain pre post where "cs = pre @ p @ post" using Cons.IH by auto
      then have "c # cs = (c # pre) @ p @ post" by simp
      then show ?thesis by blast
    qed
  next
    assume "\<exists>pre post. c # cs = pre @ p @ post"
    then obtain pre post where e: "c # cs = pre @ p @ post" by blast
    show "py_in p (c # cs)"
    proof (cases pre)
      case Nil
      with e have "py_startswith (c # cs) p" by (auto simp: py_startswith_iff)
      then show ?thesis by simp
    next
      case (Cons a pre')
      with e have "cs = pre' @ p @ post" by simp
      then have "py_in p cs" using Cons.IH by blast
      then show ?thesis by simp
    qed
  qed
qed

lemma marcadores_mayusculas: "m \<in> set marcadores_snmp \<Longrightarrow> py_upper m = m"
  by (auto simp: marcadores_snmp_def py_upper_def py_upper_char_def)

lemma py_in_upper_iff:
  assumes "py_upper m = m"
  shows "py_in m (py_upper d) = contiene_sin_caja m d"
proof
  assume "py_in m (py_upper d)"
  then obtain pre' post' where "map py_upper_char d = pre' @ m @ post'"
    by (auto simp: py_in_iff py_upper_def)
  then obtain pre r where d1: "d = pre @ r" and "map py_upper_char r = m @ post'"
    by (metis map_eq_append_conv)
  then obtain x post where "r = x @ post" and "map py_upper_char x = m"
    by (metis map_eq_append_conv)
  with d1 assms have "d = pre @ x @ post \<and> py_upper x = py_upper m"
    by (simp add: py_upper_def)
  then show "contiene_sin_caja m d"
    unfolding contiene_sin_caja_def by blast
next
  assume "contiene_sin_caja m d"
  then obtain pre x post where "d = pre @ x @ post" and "py_upper x = py_upper m"
    unfolding contiene_sin_caja_def by blast
  with assms have "py_upper d = py_upper pre @ m @ py_upper post"
    by (simp add: py_upper_def)
  then show "py_in m (py_upper d)"
    unfolding py_in_iff by blast
qed

lemma sysdescr_ok_iff: "sysdescr_ok sd = coincide_segun_spec sd"
proof (cases sd)
  case None
  then show ?thesis by (simp add: sysdescr_ok_def coincide_segun_spec_def)
next
  case (Some d)
  have "list_ex (\<lambda>m. py_in m (py_upper d)) marcadores_snmp
          = (\<exists>m \<in> set marcadores_snmp. contiene_sin_caja m d)"
    by (auto simp: list_ex_iff py_in_upper_iff marcadores_mayusculas)
  moreover have "\<not> (\<exists>m \<in> set marcadores_snmp. contiene_sin_caja m [])"
    by (auto simp: marcadores_snmp_def contiene_sin_caja_def py_upper_def)
  ultimately show ?thesis
    using Some by (auto simp: sysdescr_ok_def coincide_segun_spec_def)
qed

lemma probar_snmp_find:
  "fst (probar_snmp_olt net comms addr) =
     (case find (\<lambda>c. sysdescr_ok (snmp_get net addr oid_sysdescr c)) comms of
        None \<Rightarrow> None
      | Some c \<Rightarrow> Some \<lparr>h_ip = addr,
                         h_nombre = nombre_snmp (snmp_get net addr oid_sysname c) addr,
                         h_modelo = modelo_snmp (snmp_get net addr oid_sysdescr c),
                         h_community = c\<rparr>)"
  by (induction comms) (auto simp: Let_def split: prod.splits)

lemma intentos_detalles: "detalles_comandos ssh addr cmds = (r, ev) \<Longrightarrow> intentos ev = []"
  by (induction cmds arbitrary: r ev) (auto simp: Let_def split: sum.splits prod.splits if_splits)

lemma intentos_onus_lineas: "onus_lineas ssh addr ls = (r, ev) \<Longrightarrow> intentos ev = []"
  by (induction ls arbitrary: r ev)
     (auto simp: Let_def intentos_append obtener_detalles_onu_def dest: intentos_detalles
           split: sum.splits prod.splits list.splits if_splits)

lemma intentos_metrica_si: "intentos (metrica_si addr tipo v) = []"
  by (auto simp: metrica_si_def split: option.splits)

lemma intentos_actualizar_informacion:
  "actualizar_informacion_olt ssh olt = (r, ev) \<Longrightarrow> intentos ev = []"
  by (auto simp: actualizar_informacion_olt_def obtener_informacion_onus_def Let_def
        intentos_append intentos_metrica_si dest: intentos_onus_lineas
        split: sum.splits prod.splits)

lemma sin_snmp_detalles:
  "detalles_comandos ssh addr cmds = (r, ev) \<Longrightarrow> e \<in> set ev \<Longrightarrow> comunidad_de e = None"
  by (induction cmds arbitrary: r ev) (auto simp: Let_def split: sum.splits prod.splits if_splits)

lemma sin_snmp_onus_lineas:
  "onus_lineas ssh addr ls = (r, ev) \<Longrightarrow> e \<in> set ev \<Longrightarrow> comunidad_de e = None"
  by (induction ls arbitrary: r ev)
     (auto simp: Let_def obtener_detalles_onu_def dest: sin_snmp_detalles
           split: sum.splits prod.splits list.splits if_splits)

lemma sin_snmp_metrica_si: "e \<in> set (metrica_si addr tipo v) \<Longrightarrow> comunidad_de e = None"
  by (auto simp: metrica_si_def split: option.splits if_splits)

lemma sin_snmp_actualizar_informacion:
  "actualizar_informacion_olt ssh olt = (r, ev) \<Longrightarrow> e \<in> set ev \<Longrightarrow> comunidad_de e = None"
  by (auto simp: actualizar_informacion_olt_def obtener_informacion_onus_def Let_def
        dest: sin_snmp_onus_lineas sin_snmp_metrica_si
        split: sum.splits prod.splits)

lemma comunidad_info_snmp:
  "e \<in> set (snd (obtener_info_snmp_olt net a c)) \<Longrightarrow> comunidad_de e = Some c"
  by (auto simp: obtener_info_snmp_olt_def Let_def)

lemma actualizar_olt_snmp_ok:
  "snmp_community olt = Some c \<Longrightarrow>
     actualizar_olt_snmp net olt = (True, snd (obtener_info_snmp_olt net (ip olt) c))"
  by (simp add: actualizar_olt_snmp_def obtener_info_snmp_olt_def Let_def)

lemma actualizar_olt_con_comunidad:
  "snmp_community olt = Some c \<Longrightarrow>
     actualizar_olt net cfg addr olt = (olt, True, snd (obtener_info_snmp_olt net (ip olt) c))"
  by (simp add: actualizar_olt_def actualizar_olt_snmp_ok)

lemma actualizar_olt_sin_comunidad:
  "snmp_community olt = None \<Longrightarrow>
     actualizar_olt net cfg addr olt =
       (case credenciales cfg of
          [] \<Rightarrow> (olt, False, [])
        | cred # creds \<Rightarrow>
            (case ssh_connect net addr (username cred) (password cred) of
               None \<Rightarrow> (olt, False, [SshConnect addr (username cred) (password cred)])
             | Some ssh \<Rightarrow>
                 (fst (actualizar_informacion_olt ssh olt), True,
                  SshConnect addr (username cred) (password cred)
                  # snd (actualizar_informacion_olt ssh olt) @ [SshClose addr])))"
  by (simp add: actualizar_olt_def split: list.splits option.splits prod.splits)

lemma intentos_info_snmp: "intentos (snd (obtener_info_snmp_olt net a c)) = []"
  by (simp add: obtener_info_snmp_olt_def Let_def)

lemma intentos_actualizar_olt:
  "intentos (snd (snd (actualizar_olt net cfg addr olt))) =
     (if snmp_community olt = None then
        (case credenciales cfg of [] \<Rightarrow> [] | cred # creds \<Rightarrow> [(addr, username cred, password cred)])
      else [])"
proof (cases "snmp_community olt")
  case None
  have "intentos (snd (actualizar_informacion_olt ssh olt)) = []" for ssh
    using intentos_actualizar_informacion [of ssh olt] by (cases "actualizar_informacion_olt ssh olt") simp
  then show ?thesis using None
    by (simp add: actualizar_olt_sin_comunidad intentos_append split: list.splits option.splits)
next
  case (Some c)
  then show ?thesis by (simp add: actualizar_olt_con_comunidad intentos_info_snmp)
qed




lemma map_of_dict_set: "map_of (dict_set k v d) = (map_of d)(k \<mapsto> v)"
  by (induction d) (auto simp: fun_eq_iff)

lemma dict_set_igual: "map_of d k = Some v \<Longrightarrow> dict_set k v d = d"
  by (induction d) (auto split: if_splits)

lemma claves_dict_set:
  "map fst (dict_set k v d) = (if k \<in> fst ` set d then map fst d else map fst d @ [k])"
  by (induction d) (auto split: if_splits)

lemma distinct_dict_set: "distinct (map fst d) \<Longrightarrow> distinct (map fst (dict_set k v d))"
  by (simp add: claves_dict_set)

lemma map_valores_dict_set:
  "map (\<lambda>(a, x). (a, f x)) (dict_set k v d) = dict_set k (f v) (map (\<lambda>(a, x). (a, f x)) d)"
  by (induction d) auto

lemma olts_verificar_ip:
  "olts_detectadas (verificar_ip net cfg hhmm addr m) =
     (case hallado net cfg hhmm addr of
        None \<Rightarrow> olts_detectadas m
      | Some olt \<Rightarrow> dict_set addr olt (olts_detectadas m))"
  by (auto simp: verificar_ip_def hallado_def Let_def split: prod.splits option.splits)

lemma total_onus_actualizar_informacion:
  "total_onus (fst (actualizar_informacion_olt ssh olt)) =
     (case extraer_temperatura (ssh ''show system temperature'') of
        Inl e \<Rightarrow> total_onus olt
      | Inr t \<Rightarrow> length (fst (obtener_informacion_onus ssh (ip olt))))"
  by (auto simp: actualizar_informacion_olt_def Let_def split: sum.splits prod.splits)

lemma fst_identificar_Cons:
  "fst (identificar_olt_vsol net t (cred # creds) addr) =
     (case ssh_connect net addr (username cred) (password cred) of
        None \<Rightarrow> fst (identificar_olt_vsol net t creds addr)
      | Some ssh \<Rightarrow>
          if es_olt_vsol (ssh ''show version'') then
            Some (fst (actualizar_informacion_olt ssh
                    (nueva_olt addr (extraer_nombre_sistema t (ssh ''show system''))
                       (extraer_modelo (ssh ''show version'')))))
          else fst (identificar_olt_vsol net t creds addr))"
  by (simp add: Let_def split: option.splits prod.splits)

lemma total_onus_identificar:
  "map_option total_onus (fst (identificar_olt_vsol net t1 creds addr))
     = map_option total_onus (fst (identificar_olt_vsol net t2 creds addr))"
proof (induction creds)
  case Nil
  then show ?case by simp
next
  case (Cons cred creds)
  have "total_onus (fst (actualizar_informacion_olt ssh (nueva_olt addr n1 mo)))
          = total_onus (fst (actualizar_informacion_olt ssh (nueva_olt addr n2 mo)))"
    for ssh n1 n2 mo
    by (simp add: total_onus_actualizar_informacion nueva_olt_def split: sum.splits)
  then show ?case using Cons
    by (simp add: fst_identificar_Cons del: identificar_olt_vsol.simps split: option.splits)
qed

lemma cuenta_hallado: "map_option total_onus (hallado net cfg hhmm addr) = cuenta net cfg addr"
  using total_onus_identificar [of net hhmm "credenciales cfg" addr "[]"]
  by (auto simp: cuenta_def hallado_def split: prod.splits option.splits)

lemma conteos_verificar_ip:
  "conteos (verificar_ip net cfg hhmm addr m) = paso_conteo net cfg addr (conteos m)"
proof (cases "hallado net cfg hhmm addr")
  case None
  then have "cuenta net cfg addr = None" using cuenta_hallado [of net cfg hhmm addr] by simp
  with None show ?thesis by (simp add: conteos_def paso_conteo_def olts_verificar_ip)
next
  case (Some olt)
  then have "cuenta net cfg addr = Some (total_onus olt)"
    using cuenta_hallado [of net cfg hhmm addr] by simp
  with Some show ?thesis
    by (simp add: conteos_def paso_conteo_def olts_verificar_ip map_valores_dict_set)
qed

lemma conteos_fold:
  "conteos (fold (verificar_ip net cfg hhmm) xs m) = fold (paso_conteo net cfg) xs (conteos m)"
  by (induction xs arbitrary: m) (simp_all add: conteos_verificar_ip)

lemma map_of_paso_conteo:
  "map_of (paso_conteo net cfg x v) a =
     (if a = x \<and> cuenta net cfg x \<noteq> None then cuenta net cfg x else map_of v a)"
  by (auto simp: paso_conteo_def map_of_dict_set split: option.splits)

lemma map_of_fold_paso:
  "cuenta net cfg a = Some n \<Longrightarrow> a \<in> set xs \<or> map_of v a = Some n
   \<Longrightarrow> map_of (fold (paso_conteo net cfg) xs v) a = Some n"
proof (induction xs arbitrary: v)
  case Nil
  then show ?case by simp
next
  case (Cons x xs)
  have "a \<in> set xs \<or> map_of (paso_conteo net cfg x v) a = Some n"
    using Cons.prems by (auto simp: map_of_paso_conteo)
  then show ?case using Cons.IH [OF Cons.prems(1)] by simp
qed

lemma fold_paso_fijo:
  "(\<And>a n. a \<in> set xs \<Longrightarrow> cuenta net cfg a = Some n \<Longrightarrow> map_of v a = Some n)
   \<Longrightarrow> fold (paso_conteo net cfg) xs v = v"
proof (induction xs)
  case Nil
  then show ?case by simp
next
  case (Cons x xs)
  have "paso_conteo net cfg x v = v"
  proof (cases "cuenta net cfg x")
    case None
    then show ?thesis by (simp add: paso_conteo_def)
  next
    case (Some n)
    then have "map_of v x = Some n" using Cons.prems [of x n] by simp
    with Some show ?thesis by (simp add: paso_conteo_def dict_set_igual)
  qed
  then show ?case using Cons by simp
qed

lemma fold_paso_idempotente:
  "fold (paso_conteo net cfg) xs (fold (paso_conteo net cfg) xs v)
     = fold (paso_conteo net cfg) xs v"
  by (rule fold_paso_fijo) (simp add: map_of_fold_paso)

lemma distinct_verificar_ip:
  "distinct (map fst (olts_detectadas m))
   \<Longrightarrow> distinct (map fst (olts_detectadas (verificar_ip net cfg hhmm addr m)))"
  by (simp add: olts_verificar_ip distinct_dict_set split: option.splits)

lemma distinct_fold_verificar:
  "distinct (map fst (olts_detectadas m))
   \<Longrightarrow> distinct (map fst (olts_detectadas (fold (verificar_ip net cfg hhmm) xs m)))"
  by (induction xs arbitrary: m) (simp_all add: distinct_verificar_ip)

lemma redescubrir_no_duplica:
  "conteos (fold (verificar_ip red_dos_olts cfg_ab ''1200'')
              [''10.0.0.7'', ''10.0.0.8'', ''10.0.0.9'', ''10.0.0.7'', ''10.0.0.9'']
              monitor_vacio)
     = [(''10.0.0.7'', 0), (''10.0.0.9'', 2)]"
  by code_simp

lemma dict_get_fold_hallado:
  "hallado net cfg t a = Some olt
   \<Longrightarrow> a \<in> set xs \<or> dict_get (olts_detectadas m) a = Some olt
   \<Longrightarrow> dict_get (olts_detectadas (fold (verificar_ip net cfg t) xs m)) a = Some olt"
proof (induction xs arbitrary: m)
  case Nil
  then show ?case by simp
next
  case (Cons x xs)
  have "a \<in> set xs \<or> dict_get (olts_detectadas (verificar_ip net cfg t x m)) a = Some olt"
    using Cons.prems
    by (auto simp: olts_verificar_ip dict_get_def map_of_dict_set split: option.splits)
  then show ?case using Cons.IH [OF Cons.prems(1)] by simp
qed

lemma claves_set_dict_set: "fst ` set (dict_set k v d) = insert k (fst ` set d)"
proof -
  have "set (map fst (dict_set k v d)) = insert k (set (map fst d))"
    unfolding claves_dict_set by auto
  then show ?thesis by simp
qed

lemma claves_verificar_ip:
  "set (map fst (olts_detectadas (verificar_ip net cfg t x m)))
     = set (map fst (olts_detectadas m)) \<union> (if hallado net cfg t x \<noteq> None then {x} else {})"
  by (cases "hallado net cfg t x") (simp_all add: olts_verificar_ip claves_set_dict_set)

lemma claves_fold_verificar:
  "set (map fst (olts_detectadas (fold (verificar_ip net cfg t) xs m)))
     = set (map fst (olts_detectadas m)) \<union> {a \<in> set xs. hallado net cfg t a \<noteq> None}"
proof (induction xs arbitrary: m)
  case Nil
  then show ?case by simp
next
  case (Cons x xs)
  show ?case
    unfolding fold_simps Cons.IH claves_verificar_ip by auto
qed

lemma en_rango_7: "''10.0.0.7'' \<in> set (direcciones cfg_ab)"
proof -
  have "''10.0.0.7'' = ''10.0.0.'' @ str_de_nat 7"
    by (simp add: str_de_nat.simps cifra_def)
  moreover have "(7::nat) \<in> set [1..<254]" by simp
  ultimately show ?thesis
    by (auto simp: direcciones_def direcciones_rango_def cfg_ab_def image_iff
          simp del: set_upt intro!: bexI [where x = 7])
qed

lemma en_rango_9: "''10.0.0.9'' \<in> set (direcciones cfg_ab)"
proof -
  have "''10.0.0.9'' = ''10.0.0.'' @ str_de_nat 9"
    by (simp add: str_de_nat.simps cifra_def)
  moreover have "(9::nat) \<in> set [1..<254]" by simp
  ultimately show ?thesis
    by (auto simp: direcciones_def direcciones_rango_def cfg_ab_def image_iff
          simp del: set_upt intro!: bexI [where x = 9])
qed

lemma hallado_7: "hallado red_dos_olts cfg_ab t ''10.0.0.7'' = Some olt_por_snmp"
  by (simp add: hallado_def red_dos_olts_def cfg_ab_def sysdescr_ok_def marcadores_snmp_def
        oid_sysdescr_def oid_sysname_def nombre_snmp_def modelo_snmp_def olt_por_snmp_def
        nueva_olt_def py_upper_def py_upper_char_def)

lemma hallado_9:
  "map_option total_onus (hallado red_dos_olts cfg_ab t ''10.0.0.9'') = Some 2"
  by (simp add: hallado_def red_dos_olts_def cfg_ab_def sysdescr_ok_def cred_a_def cred_b_def
        sesion_dos_onus_def es_olt_vsol_def py_upper_def py_upper_char_def
        total_onus_actualizar_informacion nueva_olt_def extraer_temperatura_def
        obtener_informacion_onus_def obtener_detalles_onu_def comandos_detalle_def
        slot_puerto_def lineas_de_def py_lower_def py_lower_char_def py_split_def
        py_isspace_def
        del: identificar_olt_vsol.simps add: fst_identificar_Cons)

lemma hallado_solo_dos:
  "(hallado red_dos_olts cfg_ab t a \<noteq> None) = (a = ''10.0.0.7'' \<or> a = ''10.0.0.9'')"
proof (cases "a = ''10.0.0.7''")
  case True
  then show ?thesis using hallado_7 [of t] by simp
next
  case n7: False
  show ?thesis
  proof (cases "a = ''10.0.0.9''")
    case True
    then show ?thesis using hallado_9 [of t] by auto
  next
    case False
    with n7 show ?thesis
      by (simp add: hallado_def red_dos_olts_def cfg_ab_def sysdescr_ok_def)
  qed
qed

lemma claves_escaneo_dos_olts:
  "set (map fst (olts_detectadas (escanear_red_empresarial red_dos_olts cfg_ab t monitor_vacio)))
     = {''10.0.0.7'', ''10.0.0.9''}"
proof -
  have "{a \<in> set (direcciones cfg_ab). hallado red_dos_olts cfg_ab t a \<noteq> None}
          = {''10.0.0.7'', ''10.0.0.9''}"
    using en_rango_7 en_rango_9 hallado_solo_dos [of t] by blast
  then show ?thesis
    by (simp only: escanear_red_empresarial_def claves_fold_verificar monitor_vacio_def)
       (simp add: monitor_vacio_def)
qed




section \<open>Verified claims\<close>

text \<open>
  Claim C2, at an input that breaks it. \<open>extraer_temperatura\<close>,
  \<open>extraer_rx_power\<close> and \<open>extraer_tx_power\<close> hand to \<open>float\<close> every token that is
  all digits once its dots and minus signs are removed; a date or a dotted version on the
  matching line is such a token, \<open>float\<close> rejects it, and the extractor raises
  \<open>ValueError\<close> instead of returning a value or its sentinel.
\<close>

theorem extractores_lanzan_valueerror:
  "extraer_temperatura ''temperature 2024-01-15 45.0'' = Inl ValueError
   \<and> extraer_rx_power ''rx power 1.2.3'' = Inl ValueError
   \<and> extraer_tx_power ''tx power 5-7'' = Inl ValueError"
  by (simp add: extraer_temperatura_def extraer_rx_power_def extraer_tx_power_def
        texto_simps float_simps)

text \<open>
  Claim C6. On a text none of whose lines holds both \<open>rx\<close> (or \<open>tx\<close>) and
  \<open>power\<close>, the optical-power extractors return the sentinel \<open>-999\<close>; on a text
  none of whose lines holds \<open>temperature\<close>, the temperature extractor returns
  \<open>None\<close>. The three examples of the specification evaluate to these values.
\<close>

theorem centinelas_sin_palabra_clave:
  "((\<forall>l \<in> set (lineas_de output).
        \<not> (py_in ''rx'' (py_lower l) \<and> py_in ''power'' (py_lower l)))
      \<longrightarrow> extraer_rx_power output = Inr (Num (- 999)))
   \<and> ((\<forall>l \<in> set (lineas_de output).
        \<not> (py_in ''tx'' (py_lower l) \<and> py_in ''power'' (py_lower l)))
      \<longrightarrow> extraer_tx_power output = Inr (Num (- 999)))
   \<and> ((\<forall>l \<in> set (lineas_de output). \<not> py_in ''temperature'' (py_lower l))
      \<longrightarrow> extraer_temperatura output = Inr None)
   \<and> extraer_rx_power ''no mention of power'' = Inr (Num (- 999))
   \<and> extraer_tx_power ''no mention of power'' = Inr (Num (- 999))
   \<and> extraer_temperatura ''no temperature here'' = Inr None"
proof (intro conjI impI)
  show "extraer_rx_power ''no mention of power'' = Inr (Num (- 999))"
    by (simp add: extraer_rx_power_def sin_lectura_def texto_simps)
  show "extraer_tx_power ''no mention of power'' = Inr (Num (- 999))"
    by (simp add: extraer_tx_power_def sin_lectura_def texto_simps)
  show "extraer_temperatura ''no temperature here'' = Inr None"
    by (simp add: extraer_temperatura_def texto_simps)
qed (simp_all add: extraer_rx_power_def extraer_tx_power_def extraer_temperatura_def
       potencia_sin_linea temperatura_sin_linea sin_lectura_def [symmetric])

theorem centinelas_sin_palabra_clave_witness:
  "extraer_rx_power ''link up\<newline>uptime 3 days'' = Inr (Num (- 999))
   \<and> extraer_tx_power ''link up\<newline>uptime 3 days'' = Inr (Num (- 999))
   \<and> extraer_temperatura ''link up\<newline>uptime 3 days'' = Inr None"
proof -
  have rx: "\<forall>l \<in> set (lineas_de ''link up\<newline>uptime 3 days'').
              \<not> (py_in ''rx'' (py_lower l) \<and> py_in ''power'' (py_lower l))"
    by (simp add: texto_simps)
  have tx: "\<forall>l \<in> set (lineas_de ''link up\<newline>uptime 3 days'').
              \<not> (py_in ''tx'' (py_lower l) \<and> py_in ''power'' (py_lower l))"
    by (simp add: texto_simps)
  have te: "\<forall>l \<in> set (lineas_de ''link up\<newline>uptime 3 days'').
              \<not> py_in ''temperature'' (py_lower l)"
    by (simp add: texto_simps)
  from centinelas_sin_palabra_clave [of "''link up\<newline>uptime 3 days''"] rx tx te
  show ?thesis by blast
qed

text \<open>
  Claim C7. The low-signal count of the statistics is the number of inventoried units
  whose receive power is strictly below \<open>-27\<close>: a finite power \<open>q\<close> counts exactly
  when \<open>q < -27\<close>, so \<open>-27\<close> itself does not. A device with units at \<open>-20\<close>,
  \<open>-28\<close> and \<open>-30\<close> reports 2.
\<close>

theorem senal_baja_estricta:
  "onus_senal_baja (obtener_estadisticas m)
     = length (filter (\<lambda>onu. float_less (rx_power onu) (- 27)) (todas_onus m))
   \<and> float_less (Num q) (- 27) = (q < - 27)
   \<and> \<not> float_less (Num (- 27)) (- 27)
   \<and> onus_senal_baja
        (obtener_estadisticas
           \<lparr>olts_detectadas = [(''192.168.1.100'', olt_tres_onus)], eventos = []\<rparr>) = 2"
proof (intro conjI)
  show "onus_senal_baja (obtener_estadisticas m)
          = length (filter (\<lambda>onu. float_less (rx_power onu) (- 27)) (todas_onus m))"
    using senal_baja_total [of m] by (simp add: senal_baja_def [abs_def])
  show "onus_senal_baja
          (obtener_estadisticas
             \<lparr>olts_detectadas = [(''192.168.1.100'', olt_tres_onus)], eventos = []\<rparr>) = 2"
    by (simp add: obtener_estadisticas_def olt_tres_onus_def onu_con_rx_def senal_baja_def
          nueva_olt_def)
qed simp_all

text \<open>
  Claim C9. When no detail command yields a usable answer, \<open>obtener_detalles_onu\<close>
  returns the sentinel \<open>-999\<close> for both powers; a unit whose receive power is the
  sentinel passes the low-signal test; hence the low-signal count is at least the number
  of units that carry the sentinel.
\<close>

theorem centinela_cuenta_como_senal_baja:
  "((\<forall>cmd \<in> set (comandos_detalle ifz onu_id).
        ssh cmd = [] \<or> py_in ''invalid'' (py_lower (ssh cmd)))
      \<longrightarrow> fst (obtener_detalles_onu ssh addr ifz onu_id) = (None, Num (- 999), Num (- 999)))
   \<and> (rx_power onu = Num (- 999) \<longrightarrow> senal_baja onu)
   \<and> length (filter (\<lambda>onu. rx_power onu = Num (- 999)) (todas_onus m))
       \<le> onus_senal_baja (obtener_estadisticas m)"
proof (intro conjI impI)
  assume "\<forall>cmd \<in> set (comandos_detalle ifz onu_id).
            ssh cmd = [] \<or> py_in ''invalid'' (py_lower (ssh cmd))"
  then show "fst (obtener_detalles_onu ssh addr ifz onu_id) = (None, Num (- 999), Num (- 999))"
    by (simp add: obtener_detalles_onu_def detalles_sin_respuesta sin_lectura_def [symmetric])
next
  assume "rx_power onu = Num (- 999)"
  then show "senal_baja onu" by (simp add: senal_baja_def)
next
  have "length (filter (\<lambda>onu. rx_power onu = Num (- 999)) (todas_onus m))
          \<le> length (filter senal_baja (todas_onus m))"
    by (rule length_filter_mono) (simp add: senal_baja_def)
  then show "length (filter (\<lambda>onu. rx_power onu = Num (- 999)) (todas_onus m))
               \<le> onus_senal_baja (obtener_estadisticas m)"
    by (simp add: senal_baja_total)
qed

theorem centinela_cuenta_como_senal_baja_witness:
  "fst (obtener_detalles_onu sesion_muda ''10.0.0.9'' ''gpon-onu_1/1/1'' ''1'')
     = (None, Num (- 999), Num (- 999))
   \<and> senal_baja (onu_con_rx ''VSOL001'' (- 999))
   \<and> 1 \<le> onus_senal_baja (obtener_estadisticas monitor_mudo)"
proof -
  have h1: "\<forall>cmd \<in> set (comandos_detalle ''gpon-onu_1/1/1'' ''1'').
              sesion_muda cmd = [] \<or> py_in ''invalid'' (py_lower (sesion_muda cmd))"
    by (simp add: comandos_detalle_def sesion_muda_def)
  have h2: "rx_power (onu_con_rx ''VSOL001'' (- 999)) = Num (- 999)"
    by (simp add: onu_con_rx_def)
  have "filter (\<lambda>onu. rx_power onu = Num (- 999)) (todas_onus monitor_mudo) = todas_onus monitor_mudo"
    using onus_mudo by (auto simp: filter_id_conv)
  moreover have "length (todas_onus monitor_mudo) = 1"
    using onus_mudo by (metis length_map length_Cons list.size(3) One_nat_def)
  ultimately have h3: "length (filter (\<lambda>onu. rx_power onu = Num (- 999)) (todas_onus monitor_mudo)) = 1"
    by simp
  from centinela_cuenta_como_senal_baja
         [of "''gpon-onu_1/1/1''" "''1''" sesion_muda "''10.0.0.9''"
             "onu_con_rx ''VSOL001'' (- 999)" monitor_mudo] h1 h2 h3
  show ?thesis by simp
qed

text \<open>
  Claim C10. The metric samples that a telemetry refresh hands to the database are, in
  order, those of temperature, cpu and memoria whose extracted value is present and is not
  zero, and no other; when the temperature extractor raises, nothing was extracted and no
  sample is recorded. The extracted values, zero included, are stored on the record.
\<close>

theorem muestra_solo_si_presente_y_no_cero:
  "metricas (snd (actualizar_informacion_olt ssh olt)) =
     (case extraer_temperatura (ssh ''show system temperature'') of
        Inl e \<Rightarrow> []
      | Inr t \<Rightarrow> muestra (ip olt) ''temperatura'' t
                @ muestra (ip olt) ''cpu'' (extraer_porcentaje (ssh ''show cpu usage''))
                @ muestra (ip olt) ''memoria'' (extraer_porcentaje (ssh ''show memory usage'')))
   \<and> (extraer_temperatura (ssh ''show system temperature'') = Inr t \<longrightarrow>
        temperatura (fst (actualizar_informacion_olt ssh olt)) = t
        \<and> consumo_cpu (fst (actualizar_informacion_olt ssh olt))
            = extraer_porcentaje (ssh ''show cpu usage'')
        \<and> consumo_memoria (fst (actualizar_informacion_olt ssh olt))
            = extraer_porcentaje (ssh ''show memory usage''))
   \<and> muestra addr tipo None = []
   \<and> muestra addr tipo (Some (Num 0)) = []
   \<and> (v \<noteq> Num 0 \<longrightarrow> muestra addr tipo (Some v) = [(addr, tipo, v)])"
proof (intro conjI impI)
  show "metricas (snd (actualizar_informacion_olt ssh olt)) =
     (case extraer_temperatura (ssh ''show system temperature'') of
        Inl e \<Rightarrow> []
      | Inr t \<Rightarrow> muestra (ip olt) ''temperatura'' t
                @ muestra (ip olt) ''cpu'' (extraer_porcentaje (ssh ''show cpu usage''))
                @ muestra (ip olt) ''memoria'' (extraer_porcentaje (ssh ''show memory usage'')))"
    using metricas_onus [of ssh "ip olt"]
    by (auto simp: actualizar_informacion_olt_def Let_def metricas_append metricas_metrica_si
          split: sum.splits prod.splits)
next
  assume t: "extraer_temperatura (ssh ''show system temperature'') = Inr t"
  show "temperatura (fst (actualizar_informacion_olt ssh olt)) = t"
    using t by (simp add: actualizar_informacion_olt_def Let_def split: prod.splits)
  show "consumo_cpu (fst (actualizar_informacion_olt ssh olt))
          = extraer_porcentaje (ssh ''show cpu usage'')"
    using t by (simp add: actualizar_informacion_olt_def Let_def split: prod.splits)
  show "consumo_memoria (fst (actualizar_informacion_olt ssh olt))
          = extraer_porcentaje (ssh ''show memory usage'')"
    using t by (simp add: actualizar_informacion_olt_def Let_def split: prod.splits)
qed (simp_all add: muestra_def)

theorem muestra_solo_si_presente_y_no_cero_witness:
  "metricas (snd (actualizar_informacion_olt sesion_cero (nueva_olt ''10.0.0.9'' ''OLT-9'' ''VSOL-OLT'')))
     = [(''10.0.0.9'', ''cpu'', Num 12)]
   \<and> temperatura (fst (actualizar_informacion_olt sesion_cero (nueva_olt ''10.0.0.9'' ''OLT-9'' ''VSOL-OLT'')))
     = Some (Num 0)
   \<and> consumo_memoria (fst (actualizar_informacion_olt sesion_cero (nueva_olt ''10.0.0.9'' ''OLT-9'' ''VSOL-OLT'')))
     = Some (Num 0)
   \<and> muestra ''10.0.0.9'' ''cpu'' (Some (Num 12)) = [(''10.0.0.9'', ''cpu'', Num 12)]"
  using muestra_solo_si_presente_y_no_cero
          [of sesion_cero "nueva_olt ''10.0.0.9'' ''OLT-9'' ''VSOL-OLT''" "Some (Num 0)"
              "''10.0.0.9''" "''cpu''" "Num 12"]
  by (simp add: cero_t cero_cpu cero_mem muestra_def nueva_olt_def)

text \<open>
  Claim C5. The SNMP prober returns the match of the first community, in the configured
  order, whose system-description query succeeds with a description that contains one of
  the markers as a case-insensitive substring, and that community's name in the match;
  it returns no match, a value and not an error, when no community qualifies. The
  description \<open>vsol gpon olt v2\<close> matches and \<open>generic router\<close> does not.
\<close>

theorem snmp_primera_comunidad_con_marcador:
  "fst (probar_snmp_olt net comms addr) =
     (case find (\<lambda>c. coincide_segun_spec (snmp_get net addr oid_sysdescr c)) comms of
        None \<Rightarrow> None
      | Some c \<Rightarrow> Some \<lparr>h_ip = addr,
                         h_nombre = nombre_snmp (snmp_get net addr oid_sysname c) addr,
                         h_modelo = modelo_snmp (snmp_get net addr oid_sysdescr c),
                         h_community = c\<rparr>)
   \<and> coincide_segun_spec (Some ''vsol gpon olt v2'')
   \<and> \<not> coincide_segun_spec (Some ''generic router'')"
proof (intro conjI)
  show "coincide_segun_spec (Some ''vsol gpon olt v2'')"
    unfolding sysdescr_ok_iff [symmetric]
    by (simp add: sysdescr_ok_def marcadores_snmp_def texto_simps)
  show "\<not> coincide_segun_spec (Some ''generic router'')"
    unfolding sysdescr_ok_iff [symmetric]
    by (simp add: sysdescr_ok_def marcadores_snmp_def texto_simps)
qed (simp add: probar_snmp_find sysdescr_ok_iff)

text \<open>
  Claim C1, at an input that breaks it. Only the credential \<open>B\<close> of \<open>[A, B, C]\<close>
  opens a session, on a device whose version text has no marker: the prober closes that
  session and goes on to attempt \<open>C\<close>.
\<close>

theorem rotacion_sigue_tras_conexion_counterexample:
  "ssh_connect (red_solo_b sesion_router) ''10.0.0.1'' (username cred_a) (password cred_a) = None
   \<and> ssh_connect (red_solo_b sesion_router) ''10.0.0.1'' (username cred_b) (password cred_b) \<noteq> None
   \<and> ssh_connect (red_solo_b sesion_router) ''10.0.0.1'' (username cred_c) (password cred_c) = None
   \<and> intentos (snd (identificar_olt_vsol (red_solo_b sesion_router) ''1200''
                      [cred_a, cred_b, cred_c] ''10.0.0.1''))
       = [(''10.0.0.1'', ''admin'', ''A''), (''10.0.0.1'', ''admin'', ''B''),
          (''10.0.0.1'', ''admin'', ''C'')]"
  by (simp add: red_solo_b_def cred_a_def cred_b_def cred_c_def sesion_router_def
        es_olt_vsol_def py_upper_def py_upper_char_def)

text \<open>
  Claim C1, amended. The command-shell prober attempts the credentials strictly in the
  configured order and stops at the first credential that is accepted, that is, whose
  connection succeeds and whose version text holds a marker; no later credential is
  attempted. It returns a device exactly when some credential is accepted.
\<close>

theorem rotacion_hasta_primera_aceptada:
  "intentos (snd (identificar_olt_vsol net hhmm creds addr)) =
     map (\<lambda>cred. (addr, username cred, password cred))
       (takeWhile (\<lambda>cred. \<not> acepta net addr cred) creds
        @ take 1 (dropWhile (\<lambda>cred. \<not> acepta net addr cred) creds))
   \<and> (fst (identificar_olt_vsol net hhmm creds addr) \<noteq> None)
       = (\<exists>cred \<in> set creds. acepta net addr cred)"
proof (induction creds)
  case Nil
  then show ?case by simp
next
  case (Cons cred creds)
  show ?case
  proof (cases "ssh_connect net addr (username cred) (password cred)")
    case None
    then show ?thesis using Cons
      by (auto simp: acepta_def split: prod.splits)
  next
    case (Some ssh)
    show ?thesis
    proof (cases "es_olt_vsol (ssh ''show version'')")
      case True
      then show ?thesis using Some
        by (auto simp: acepta_def Let_def intentos_append dest: intentos_actualizar_informacion
              split: prod.splits)
    next
      case False
      then show ?thesis using Some Cons
        by (auto simp: acepta_def Let_def intentos_append split: prod.splits)
    qed
  qed
qed

theorem rotacion_hasta_primera_aceptada_witness:
  "intentos (snd (identificar_olt_vsol (red_solo_b sesion_olt) ''1200''
                    [cred_a, cred_b, cred_c] ''10.0.0.1''))
     = [(''10.0.0.1'', ''admin'', ''A''), (''10.0.0.1'', ''admin'', ''B'')]
   \<and> fst (identificar_olt_vsol (red_solo_b sesion_olt) ''1200''
             [cred_a, cred_b, cred_c] ''10.0.0.1'') \<noteq> None"
proof -
  have a: "\<not> acepta (red_solo_b sesion_olt) ''10.0.0.1'' cred_a"
    by (simp add: acepta_def red_solo_b_def cred_a_def)
  have b: "acepta (red_solo_b sesion_olt) ''10.0.0.1'' cred_b"
    by (simp add: acepta_def red_solo_b_def cred_b_def sesion_olt_def es_olt_vsol_def
          py_upper_def py_upper_char_def)
  from rotacion_hasta_primera_aceptada
         [of "red_solo_b sesion_olt" "''1200''" "[cred_a, cred_b, cred_c]" "''10.0.0.1''"] a b
  show ?thesis by (simp add: cred_a_def cred_b_def)
qed

text \<open>
  Claim C4, at an input that breaks it. A device is discovered over the shell with the
  second credential \<open>B\<close>, the first one being rejected. Its record stores neither a
  community nor a credential, and the refresh connects with the first configured
  credential \<open>A\<close> only: the credential that succeeded at discovery is not used.
\<close>

theorem refresco_ignora_credencial_de_descubrimiento_counterexample:
  "(case identificar_olt_vsol (red_solo_b sesion_olt) ''1200'' (credenciales cfg_ab) ''10.0.0.1'' of
      (Some olt, ev) \<Rightarrow>
        last (intentos ev) = (''10.0.0.1'', ''admin'', ''B'')
        \<and> snmp_community olt = None
        \<and> intentos (snd (snd (actualizar_olt (red_solo_b sesion_olt) cfg_ab ''10.0.0.1'' olt)))
            = [(''10.0.0.1'', ''admin'', ''A'')]
    | (None, ev) \<Rightarrow> False)"
  by (simp add: cfg_ab_def red_solo_b_def cred_a_def cred_b_def sesion_olt_def
        es_olt_vsol_def py_upper_def py_upper_char_def actualizar_informacion_olt_def
        extraer_temperatura_def extraer_porcentaje_def obtener_informacion_onus_def
        lineas_de_def metrica_si_def nueva_olt_def extraer_nombre_sistema_def extraer_modelo_def
        py_lower_def py_lower_char_def py_strip_def py_isspace_def actualizar_olt_def)

text \<open>
  Claim C4, amended. A record that carries a community is re-queried over SNMP first,
  and every SNMP request of its refresh carries that community. A record without a
  community, which is every device found over the shell, since no credential is stored,
  is re-queried over the shell with the first configured credential and by no SNMP
  request. Whenever the refresh of a device connects over the shell, it does so once,
  with the first configured credential. Nothing is said here of a shell fall-back after a
  failed SNMP re-query: \<open>actualizar_olt_snmp\<close> reports success for every record that
  has a community, whatever the device answers (lemma \<open>actualizar_olt_con_comunidad\<close>),
  so the fall-back written in \<open>actualizar_todas_olts\<close> is never reached for such a
  record.
\<close>

theorem refresco_por_comunidad_o_primera_credencial:
  "(snmp_community olt = Some c \<longrightarrow>
      (\<exists>ev. snd (snd (actualizar_olt net cfg addr olt))
               = snd (obtener_info_snmp_olt net (ip olt) c) @ ev)
      \<and> snd (obtener_info_snmp_olt net (ip olt) c) \<noteq> []
      \<and> (\<forall>e \<in> set (snd (snd (actualizar_olt net cfg addr olt))).
            comunidad_de e = None \<or> comunidad_de e = Some c))
   \<and> (snmp_community olt = None \<longrightarrow>
      (\<forall>e \<in> set (snd (snd (actualizar_olt net cfg addr olt))). comunidad_de e = None)
      \<and> intentos (snd (snd (actualizar_olt net cfg addr olt)))
          = (case credenciales cfg of
               [] \<Rightarrow> []
             | cred # creds \<Rightarrow> [(addr, username cred, password cred)]))
   \<and> (intentos (snd (snd (actualizar_olt net cfg addr olt))) = []
       \<or> intentos (snd (snd (actualizar_olt net cfg addr olt)))
          = (case credenciales cfg of
               [] \<Rightarrow> []
             | cred # creds \<Rightarrow> [(addr, username cred, password cred)]))"
proof (intro conjI impI)
  assume c: "snmp_community olt = Some c"
  show "\<exists>ev. snd (snd (actualizar_olt net cfg addr olt))
               = snd (obtener_info_snmp_olt net (ip olt) c) @ ev"
    using c by (simp add: actualizar_olt_con_comunidad)
  show "snd (obtener_info_snmp_olt net (ip olt) c) \<noteq> []"
    by (simp add: obtener_info_snmp_olt_def Let_def)
  show "\<forall>e \<in> set (snd (snd (actualizar_olt net cfg addr olt))).
          comunidad_de e = None \<or> comunidad_de e = Some c"
    using c by (auto simp: actualizar_olt_con_comunidad dest: comunidad_info_snmp)
next
  assume n: "snmp_community olt = None"
  have "comunidad_de e = None" if "e \<in> set (snd (actualizar_informacion_olt ssh olt))" for e ssh
    using that sin_snmp_actualizar_informacion [of ssh olt _ _ e]
    by (cases "actualizar_informacion_olt ssh olt") simp
  then show "\<forall>e \<in> set (snd (snd (actualizar_olt net cfg addr olt))). comunidad_de e = None"
    using n by (auto simp: actualizar_olt_sin_comunidad split: list.splits option.splits)
  show "intentos (snd (snd (actualizar_olt net cfg addr olt)))
          = (case credenciales cfg of
               [] \<Rightarrow> []
             | cred # creds \<Rightarrow> [(addr, username cred, password cred)])"
    using n by (simp add: intentos_actualizar_olt)
next
  show "intentos (snd (snd (actualizar_olt net cfg addr olt))) = []
       \<or> intentos (snd (snd (actualizar_olt net cfg addr olt)))
          = (case credenciales cfg of
               [] \<Rightarrow> []
             | cred # creds \<Rightarrow> [(addr, username cred, password cred)])"
    by (simp add: intentos_actualizar_olt)
qed

theorem refresco_por_comunidad_o_primera_credencial_witness:
  "take 5 (snd (snd (actualizar_olt red_apagada cfg_ab ''10.0.0.7'' olt_por_snmp)))
     = [SnmpGet ''10.0.0.7'' ''1.3.6.1.2.1.1.1.0'' ''public'',
        SnmpGet ''10.0.0.7'' ''1.3.6.1.2.1.1.5.0'' ''public'',
        SnmpGet ''10.0.0.7'' ''1.3.6.1.2.1.1.6.0'' ''public'',
        SnmpWalk ''10.0.0.7'' ''1.3.6.1.2.1.2.2.1.2'' ''public'',
        SnmpWalk ''10.0.0.7'' ''1.3.6.1.4.1'' ''public'']
   \<and> intentos (snd (snd (actualizar_olt red_apagada cfg_ab ''192.168.1.100'' olt_tres_onus)))
       = [(''192.168.1.100'', ''admin'', ''A'')]"
proof -
  have s: "snmp_community olt_por_snmp = Some ''public''"
    by (simp add: olt_por_snmp_def)
  have n: "snmp_community olt_tres_onus = None"
    by (simp add: olt_tres_onus_def nueva_olt_def)
  have i: "ip olt_por_snmp = ''10.0.0.7''"
    by (simp add: olt_por_snmp_def nueva_olt_def)
  obtain ev where
    "snd (snd (actualizar_olt red_apagada cfg_ab ''10.0.0.7'' olt_por_snmp))
       = snd (obtener_info_snmp_olt red_apagada (ip olt_por_snmp) ''public'') @ ev"
    using refresco_por_comunidad_o_primera_credencial
            [of olt_por_snmp "''public''" red_apagada cfg_ab "''10.0.0.7''"] s
    by blast
  then have a: "take 5 (snd (snd (actualizar_olt red_apagada cfg_ab ''10.0.0.7'' olt_por_snmp)))
       = snd (obtener_info_snmp_olt red_apagada ''10.0.0.7'' ''public'')"
    by (simp add: i obtener_info_snmp_olt_def)
  have b: "intentos (snd (snd (actualizar_olt red_apagada cfg_ab ''192.168.1.100'' olt_tres_onus)))
       = [(''192.168.1.100'', ''admin'', ''A'')]"
    using refresco_por_comunidad_o_primera_credencial
            [of olt_tres_onus _ red_apagada cfg_ab "''192.168.1.100''"] n
    by (simp add: cfg_ab_def cred_a_def)
  from a b show ?thesis
    by (simp add: obtener_info_snmp_olt_def)
qed




text \<open>
  Claim C3. The inventory holds at most one record per address: a scan pass keeps the
  addresses of the dictionary pairwise distinct. When an address is identified, the scan
  stores its record under that address: in place of the record already there, with no
  new entry, or as a new last entry when the address was not inventoried; an address that
  is not identified changes nothing. After a pass the inventory holds, for every scanned
  address that was identified, the record found, and its addresses are those it had
  before together with the identified ones. A second pass over the same network leaves
  the number of devices and the unit count of every device as the first pass left them,
  whatever the clock. The worker threads of a pass are taken one after the other.
\<close>

theorem inventario_sin_duplicados:
  "(distinct (map fst (olts_detectadas m))
      \<longrightarrow> distinct (map fst (olts_detectadas (escanear_red_empresarial net cfg t1 m))))
   \<and> (hallado net cfg t1 addr = Some olt
      \<longrightarrow> dict_get (olts_detectadas (verificar_ip net cfg t1 addr m)) addr = Some olt
          \<and> (dict_get (olts_detectadas m) addr \<noteq> None
               \<longrightarrow> map fst (olts_detectadas (verificar_ip net cfg t1 addr m))
                     = map fst (olts_detectadas m))
          \<and> (dict_get (olts_detectadas m) addr = None
               \<longrightarrow> map fst (olts_detectadas (verificar_ip net cfg t1 addr m))
                     = map fst (olts_detectadas m) @ [addr]))
   \<and> (hallado net cfg t1 addr = None
      \<longrightarrow> olts_detectadas (verificar_ip net cfg t1 addr m) = olts_detectadas m)
   \<and> (addr \<in> set (direcciones cfg) \<and> hallado net cfg t1 addr = Some olt
      \<longrightarrow> dict_get (olts_detectadas (escanear_red_empresarial net cfg t1 m)) addr = Some olt)
   \<and> set (map fst (olts_detectadas (escanear_red_empresarial net cfg t1 m)))
       = set (map fst (olts_detectadas m))
         \<union> {a \<in> set (direcciones cfg). hallado net cfg t1 a \<noteq> None}
   \<and> length (olts_detectadas
               (escanear_red_empresarial net cfg t2 (escanear_red_empresarial net cfg t1 m)))
       = length (olts_detectadas (escanear_red_empresarial net cfg t1 m))
   \<and> conteos (escanear_red_empresarial net cfg t2 (escanear_red_empresarial net cfg t1 m))
       = conteos (escanear_red_empresarial net cfg t1 m)"
proof (intro conjI impI)
  assume "distinct (map fst (olts_detectadas m))"
  then show "distinct (map fst (olts_detectadas (escanear_red_empresarial net cfg t1 m)))"
    by (simp add: escanear_red_empresarial_def distinct_fold_verificar)
next
  assume h: "hallado net cfg t1 addr = Some olt"
  show "dict_get (olts_detectadas (verificar_ip net cfg t1 addr m)) addr = Some olt"
    using h by (simp add: olts_verificar_ip dict_get_def map_of_dict_set)
  show "map fst (olts_detectadas (verificar_ip net cfg t1 addr m)) = map fst (olts_detectadas m)"
    if "dict_get (olts_detectadas m) addr \<noteq> None"
  proof -
    from that have "addr \<in> fst ` set (olts_detectadas m)"
      by (simp add: dict_get_def map_of_eq_None_iff)
    then show ?thesis using h by (simp add: olts_verificar_ip claves_dict_set)
  qed
  show "map fst (olts_detectadas (verificar_ip net cfg t1 addr m))
          = map fst (olts_detectadas m) @ [addr]"
    if "dict_get (olts_detectadas m) addr = None"
  proof -
    from that have "addr \<notin> fst ` set (olts_detectadas m)"
      by (simp add: dict_get_def map_of_eq_None_iff)
    then show ?thesis using h by (simp add: olts_verificar_ip claves_dict_set)
  qed
next
  assume "hallado net cfg t1 addr = None"
  then show "olts_detectadas (verificar_ip net cfg t1 addr m) = olts_detectadas m"
    by (simp add: olts_verificar_ip)
next
  assume "addr \<in> set (direcciones cfg) \<and> hallado net cfg t1 addr = Some olt"
  then show "dict_get (olts_detectadas (escanear_red_empresarial net cfg t1 m)) addr = Some olt"
    by (simp add: escanear_red_empresarial_def dict_get_fold_hallado)
next
  show "set (map fst (olts_detectadas (escanear_red_empresarial net cfg t1 m)))
       = set (map fst (olts_detectadas m))
         \<union> {a \<in> set (direcciones cfg). hallado net cfg t1 a \<noteq> None}"
    by (simp only: escanear_red_empresarial_def claves_fold_verificar)
next
  show c: "conteos (escanear_red_empresarial net cfg t2 (escanear_red_empresarial net cfg t1 m))
       = conteos (escanear_red_empresarial net cfg t1 m)"
    by (simp add: escanear_red_empresarial_def conteos_fold fold_paso_idempotente)
  have "length (conteos x) = length (olts_detectadas x)" for x
    by (simp add: conteos_def)
  with c show "length (olts_detectadas
               (escanear_red_empresarial net cfg t2 (escanear_red_empresarial net cfg t1 m)))
       = length (olts_detectadas (escanear_red_empresarial net cfg t1 m))"
    by metis
qed

theorem inventario_sin_duplicados_witness:
  "distinct (map fst (olts_detectadas
               (escanear_red_empresarial red_dos_olts cfg_ab ''1200'' monitor_vacio)))
   \<and> dict_get (olts_detectadas (verificar_ip red_dos_olts cfg_ab ''1200'' ''10.0.0.7'' monitor_vacio))
         ''10.0.0.7'' = Some olt_por_snmp
   \<and> dict_get (olts_detectadas (escanear_red_empresarial red_dos_olts cfg_ab ''1200'' monitor_vacio))
         ''10.0.0.7'' = Some olt_por_snmp
   \<and> map_option total_onus
         (dict_get (olts_detectadas
                      (escanear_red_empresarial red_dos_olts cfg_ab ''1200'' monitor_vacio))
            ''10.0.0.9'') = Some 2
   \<and> length (olts_detectadas
               (escanear_red_empresarial red_dos_olts cfg_ab ''1201''
                  (escanear_red_empresarial red_dos_olts cfg_ab ''1200'' monitor_vacio))) = 2
   \<and> conteos (escanear_red_empresarial red_dos_olts cfg_ab ''1201''
                 (escanear_red_empresarial red_dos_olts cfg_ab ''1200'' monitor_vacio))
       = conteos (escanear_red_empresarial red_dos_olts cfg_ab ''1200'' monitor_vacio)"
proof -
  note t = inventario_sin_duplicados
             [of monitor_vacio red_dos_olts cfg_ab "''1200''" "''10.0.0.7''" olt_por_snmp "''1201''"]
  have a: "distinct (map fst (olts_detectadas monitor_vacio))"
    by (simp add: monitor_vacio_def)
  have d: "distinct (map fst (olts_detectadas
               (escanear_red_empresarial red_dos_olts cfg_ab ''1200'' monitor_vacio)))"
    using t a by blast
  have "length (olts_detectadas (escanear_red_empresarial red_dos_olts cfg_ab ''1200'' monitor_vacio))
          = card (set (map fst (olts_detectadas
                         (escanear_red_empresarial red_dos_olts cfg_ab ''1200'' monitor_vacio))))"
    using distinct_card [OF d] by simp
  also have "\<dots> = card {''10.0.0.7'', ''10.0.0.9''}"
    by (simp only: claves_escaneo_dos_olts)
  also have "\<dots> = 2" by simp
  finally have l: "length (olts_detectadas
                     (escanear_red_empresarial red_dos_olts cfg_ab ''1200'' monitor_vacio)) = 2" .
  obtain olt9 where h9: "hallado red_dos_olts cfg_ab ''1200'' ''10.0.0.9'' = Some olt9"
    and n9: "total_onus olt9 = 2"
    using hallado_9 [of "''1200''"] by auto
  from inventario_sin_duplicados
         [of monitor_vacio red_dos_olts cfg_ab "''1200''" "''10.0.0.9''" olt9 "''1201''"]
       en_rango_9 h9
  have "dict_get (olts_detectadas
                    (escanear_red_empresarial red_dos_olts cfg_ab ''1200'' monitor_vacio))
          ''10.0.0.9'' = Some olt9"
    by blast
  with n9 have u: "map_option total_onus
         (dict_get (olts_detectadas
                      (escanear_red_empresarial red_dos_olts cfg_ab ''1200'' monitor_vacio))
            ''10.0.0.9'') = Some 2"
    by simp
  from t a l hallado_7 [of "''1200''"] en_rango_7 d u show ?thesis
    by simp
qed

end
